theory Spec2Isabelle
  imports Complex_Main "HOL-Library.Multiset"
begin

section \<open>Python values and text\<close>

text \<open>
  A data-frame cell holds a Python object.  The cells that the two dashboards meet are
  text, integers, Booleans, the float \<open>nan\<close> that pandas uses for a missing value, and
  \<open>None\<close>.  Floats other than \<open>nan\<close> are not modelled.  Text is a list of 8-bit
  characters, read as code points below 256.
\<close>

datatype cell = StrV string | IntV int | BoolV bool | NaN | NoneV

datatype py_error = KeyError | IndexError | TypeError | ValueError

subsection \<open>\<open>str(x)\<close>, \<open>bool(x)\<close>, \<open>pd.isna(x)\<close>\<close>

fun str_nat :: "nat \<Rightarrow> string" where
  "str_nat n =
     (if n < 10 then [char_of (48 + n)]
      else str_nat (n div 10) @ [char_of (48 + n mod 10)])"

declare str_nat.simps [simp del]

definition str_int :: "int \<Rightarrow> string" where
  "str_int i = (if i < 0 then CHR ''-'' # str_nat (nat (- i)) else str_nat (nat i))"

fun py_str :: "cell \<Rightarrow> string" where
  "py_str (StrV s) = s"
| "py_str (IntV i) = str_int i"
| "py_str (BoolV b) = (if b then ''True'' else ''False'')"
| "py_str NaN = ''nan''"
| "py_str NoneV = ''None''"

text \<open>Truthiness: \<open>nan\<close> is a non-zero float, hence true.\<close>

fun py_bool :: "cell \<Rightarrow> bool" where
  "py_bool (StrV s) = (s \<noteq> [])"
| "py_bool (IntV i) = (i \<noteq> 0)"
| "py_bool (BoolV b) = b"
| "py_bool NaN = True"
| "py_bool NoneV = False"

fun isna :: "cell \<Rightarrow> bool" where
  "isna NaN = True"
| "isna NoneV = True"
| "isna _ = False"

subsection \<open>\<open>str.lower\<close>, \<open>str.strip\<close>, \<open>in\<close>\<close>

text \<open>
  Among the code points below 256 Python lower-cases \<open>A\<close> to \<open>Z\<close> and the Latin-1 capitals
  (192 to 222 without the multiplication sign 215), each by adding 32; its white space
  there is 9 to 13, 28 to 32, 133 and 160.
\<close>

definition lower_char :: "char \<Rightarrow> char" where
  "lower_char c =
     (let n = (of_char c :: nat)
      in if (65 \<le> n \<and> n \<le> 90) \<or> (192 \<le> n \<and> n \<le> 222 \<and> n \<noteq> 215)
         then char_of (n + 32) else c)"

definition py_lower :: "string \<Rightarrow> string" where
  "py_lower s = map lower_char s"

definition py_isspace :: "char \<Rightarrow> bool" where
  "py_isspace c =
     (let n = (of_char c :: nat)
      in (9 \<le> n \<and> n \<le> 13) \<or> (28 \<le> n \<and> n \<le> 32) \<or> n = 133 \<or> n = 160)"

definition py_strip :: "string \<Rightarrow> string" where
  "py_strip s = rev (dropWhile py_isspace (rev (dropWhile py_isspace s)))"

fun starts_with :: "string \<Rightarrow> string \<Rightarrow> bool" where
  "starts_with [] s = True"
| "starts_with (p # ps) [] = False"
| "starts_with (p # ps) (c # cs) = (p = c \<and> starts_with ps cs)"

text \<open>\<open>py_in sub s\<close> is Python's \<open>sub in s\<close> on text.\<close>

fun py_in :: "string \<Rightarrow> string \<Rightarrow> bool" where
  "py_in sub [] = (sub = [])"
| "py_in sub (c # cs) = (starts_with sub (c # cs) \<or> py_in sub cs)"

section \<open>Data frames\<close>

text \<open>
  A data frame is its list of named columns, in column order.  Column labels are
  expected to be distinct and all columns to have one length (\<open>wf_table\<close>); frames with
  repeated labels are not modelled.  A frame without columns has no cells, so the model
  does not tell a frame of no columns and some rows from one of no rows: every function
  below tests \<open>df.empty\<close> first and treats both alike.
\<close>

type_synonym table = "(string \<times> cell list) list"

definition columns :: "table \<Rightarrow> string list" where
  "columns df = map fst df"

definition nrows :: "table \<Rightarrow> nat" where
  "nrows df = (case df of [] \<Rightarrow> 0 | c # _ \<Rightarrow> length (snd c))"

definition wf_table :: "table \<Rightarrow> bool" where
  "wf_table df = (distinct (columns df) \<and> list_all (\<lambda>c. length (snd c) = nrows df) df)"

text \<open>\<open>df.empty\<close>: one of the two axes has length 0.\<close>

definition df_empty :: "table \<Rightarrow> bool" where
  "df_empty df = (df = [] \<or> nrows df = 0)"

definition has_col :: "string \<Rightarrow> table \<Rightarrow> bool" where
  "has_col name df = (name \<in> set (columns df))"

text \<open>\<open>df[name]\<close>, read only where the label is known to be present.\<close>

definition col :: "table \<Rightarrow> string \<Rightarrow> cell list" where
  "col df name = (case map_of df name of Some c \<Rightarrow> c | None \<Rightarrow> [])"

text \<open>\<open>df[name] = values\<close>: overwrite in place, or append a new last column.\<close>

fun set_col :: "string \<Rightarrow> cell list \<Rightarrow> table \<Rightarrow> table" where
  "set_col name vs [] = [(name, vs)]"
| "set_col name vs (c # cs) = (if fst c = name then (name, vs) # cs else c # set_col name vs cs)"

text \<open>\<open>df.rename(columns=mapping)\<close>: every label that is a key of the mapping is replaced.\<close>

definition rename_label :: "(string \<times> string) list \<Rightarrow> string \<Rightarrow> string" where
  "rename_label mapping name = (case map_of mapping name of Some new \<Rightarrow> new | None \<Rightarrow> name)"

definition rename :: "(string \<times> string) list \<Rightarrow> table \<Rightarrow> table" where
  "rename mapping df = map (\<lambda>c. (rename_label mapping (fst c), snd c)) df"

section \<open>Normalisation\<close>

definition started_label :: cell where
  "started_label = StrV ''Started''"

definition not_started_label :: cell where
  "not_started_label = StrV ''Not Started''"

text \<open>The lambda applied to \<open>Is_Completed\<close> in both variants.\<close>

definition completion_label :: "cell \<Rightarrow> cell" where
  "completion_label x = (if py_bool x then StrV ''Completed'' else StrV ''In Progress'')"

subsection \<open>\<open>service_dashboard.normalize_dataframe\<close>\<close>

definition column_mapping_service :: "(string \<times> string) list" where
  "column_mapping_service =
     [(''sl_no'', ''SL_NO''),
      (''student_name'', ''Student_Name''),
      (''course'', ''Course''),
      (''contact_number'', ''Contact''),
      (''package_hours'', ''Package_Hours''),
      (''mail_id'', ''Email''),
      (''joining_date'', ''Joining_Date''),
      (''status'', ''Status''),
      (''started_date'', ''Started_Date''),
      (''completed_date'', ''Completed_Date''),
      (''tutor_name'', ''Tutor''),
      (''team_name'', ''Team''),
      (''sheet_name'', ''Month''),
      (''new_old'', ''New_Old'')]"

definition clean_status :: "cell \<Rightarrow> cell" where
  "clean_status x =
     (let s = py_strip (py_lower (py_str x))
      in if py_in ''started'' s \<and> \<not> py_in ''not'' s then started_label
         else if py_in ''yes'' s then started_label
         else not_started_label)"

text \<open>The block under \<open># Normalize Status\<close>.\<close>

definition normalize_status_service :: "table \<Rightarrow> table" where
  "normalize_status_service df =
     (if has_col ''Status'' df
      then set_col ''Status_Clean'' (map clean_status (col df ''Status'')) df
      else df)"

text \<open>
  The block under \<open># Cross-verify with Started_Date if available\<close>.  The mask is
  \<open>df['Started_Date'].astype(str).str.strip().str.len() > 4\<close>; \<open>has_start_date\<close> is the mask
  for one cell, and the assignment through \<open>df.loc\<close> changes the masked rows only.
\<close>

definition has_start_date :: "cell \<Rightarrow> bool" where
  "has_start_date d = (4 < length (py_strip (py_str d)))"

definition force_started :: "cell list \<Rightarrow> cell list \<Rightarrow> cell list" where
  "force_started dates statuses =
     map (\<lambda>(d, s). if has_start_date d then started_label else s) (zip dates statuses)"

definition cross_verify_started_date :: "table \<Rightarrow> table" where
  "cross_verify_started_date df =
     (if has_col ''Started_Date'' df \<and> has_col ''Status_Clean'' df
      then set_col ''Status_Clean''
             (force_started (col df ''Started_Date'') (col df ''Status_Clean'')) df
      else df)"

text \<open>The block under \<open># Add completion status\<close>.\<close>

definition completed_check_service :: "cell \<Rightarrow> cell" where
  "completed_check_service x =
     BoolV (py_bool x \<and> py_strip (py_str x) \<notin> set ['''', ''nan'', ''None'', ''NaT''])"

definition add_completion_status_service :: "table \<Rightarrow> table" where
  "add_completion_status_service df =
     (if has_col ''Completed_Date'' df
      then
        let df1 = set_col ''Is_Completed''
                    (map completed_check_service (col df ''Completed_Date'')) df
        in set_col ''Completion_Status'' (map completion_label (col df1 ''Is_Completed'')) df1
      else
        let df1 = set_col ''Is_Completed'' (replicate (nrows df) (BoolV False)) df
        in set_col ''Completion_Status'' (replicate (nrows df1) (StrV ''In Progress'')) df1)"

definition normalize_dataframe_service :: "table \<Rightarrow> table" where
  "normalize_dataframe_service df =
     (if df_empty df then df
      else add_completion_status_service
             (cross_verify_started_date
                (normalize_status_service (rename column_mapping_service df))))"

subsection \<open>\<open>simple_dashboard.normalize_dataframe\<close>\<close>

definition column_mapping_simple :: "(string \<times> string) list" where
  "column_mapping_simple =
     [(''SL NO'', ''SL_NO''),
      (''STUDENT NAME'', ''Student_Name''),
      (''COURSE'', ''Course''),
      (''CONTACT NUMBER'', ''Contact''),
      (''PACKAGE (HOURS)'', ''Package_Hours''),
      (''MAIL ID'', ''Email''),
      (''JOINING DATE'', ''Joining_Date''),
      (''INDIVIDUAL - STARTED / NOT STARTED'', ''Status''),
      ('' STARTED DATE'', ''Started_Date''),
      (''COURSE COMPLETED DATE'', ''Completed_Date''),
      (''TUTOR NAME'', ''Tutor''),
      (''TEAM NAME'', ''Team'')]"

text \<open>The renaming loop: one \<open>df.rename\<close> per mapping entry whose source label is present.\<close>

definition rename_loop :: "(string \<times> string) list \<Rightarrow> table \<Rightarrow> table" where
  "rename_loop mapping df =
     fold (\<lambda>(old_name, new_name) d.
             if has_col old_name d then rename [(old_name, new_name)] d else d) mapping df"

definition status_simple :: "cell \<Rightarrow> cell" where
  "status_simple x =
     (let s = py_lower (py_str x)
      in if py_in ''start'' s \<or> py_in ''yes'' s then started_label else not_started_label)"

definition normalize_status_simple :: "table \<Rightarrow> table" where
  "normalize_status_simple df =
     (if has_col ''Status'' df
      then set_col ''Status_Clean'' (map status_simple (col df ''Status'')) df
      else df)"

text \<open>\<open>df['Completed_Date'].notna() & (df['Completed_Date'] != '')\<close>, for one cell.\<close>

definition completed_check_simple :: "cell \<Rightarrow> cell" where
  "completed_check_simple x = BoolV (\<not> isna x \<and> x \<noteq> StrV '''')"

definition add_completion_status_simple :: "table \<Rightarrow> table" where
  "add_completion_status_simple df =
     (if has_col ''Completed_Date'' df
      then
        let df1 = set_col ''Is_Completed''
                    (map completed_check_simple (col df ''Completed_Date'')) df
        in set_col ''Completion_Status'' (map completion_label (col df1 ''Is_Completed'')) df1
      else df)"

definition normalize_dataframe_simple :: "table \<Rightarrow> table" where
  "normalize_dataframe_simple df =
     (if df_empty df then df
      else add_completion_status_simple
             (normalize_status_simple (rename_loop column_mapping_simple df)))"

section \<open>Aggregation\<close>

text \<open>
  Rates are IEEE doubles, each given by its exact rational value.  \<open>float64 x\<close> is the
  double nearest to \<open>x\<close>, a tie going to the even significand: every quotient and product
  of the code is rounded so.  The exponent range is not modelled; all values at hand are
  far inside it.
\<close>

text \<open>Rounding to the nearest integer, a tie going to the even one (\<open>rint\<close>).\<close>

definition round_half_even :: "rat \<Rightarrow> int" where
  "round_half_even y =
     (let f = \<lfloor>y\<rfloor>; d = y - of_int f
      in if d < 1 / 2 then f
         else if 1 / 2 < d then f + 1
         else if even f then f else f + 1)"

text \<open>\<open>int.bit_length\<close>.\<close>

fun bit_length :: "nat \<Rightarrow> nat" where
  "bit_length n = (if n = 0 then 0 else Suc (bit_length (n div 2)))"

declare bit_length.simps [simp del]

text \<open>The exponent \<open>e\<close> of a positive \<open>x\<close>: \<open>2 powi e \<le> x < 2 powi (e + 1)\<close>.\<close>

definition binade :: "rat \<Rightarrow> int" where
  "binade x =
     (if 1 \<le> x then int (bit_length (nat \<lfloor>x\<rfloor>)) - 1
      else
        let k = int (bit_length (nat \<lfloor>1 / x\<rfloor>)) - 1
        in if x = 2 powi (- k) then - k else - k - 1)"

text \<open>A double has 53 significant bits: its unit in the last place is \<open>2 powi (e - 52)\<close>.\<close>

definition float64 :: "rat \<Rightarrow> rat" where
  "float64 x =
     (if x = 0 then 0
      else
        let ulp = 2 powi (binade \<bar>x\<bar> - 52)
        in sgn x * of_int (round_half_even (\<bar>x\<bar> / ulp)) * ulp)"

text \<open>
  Python's \<open>round(x, 1)\<close> on a float rounds the exact value of \<open>x\<close> to one decimal place, a
  tie going to the even digit, and returns the double nearest to that decimal.
\<close>

definition py_round1 :: "rat \<Rightarrow> rat" where
  "py_round1 x = float64 (of_int (round_half_even (x * 10)) / 10)"

text \<open>
  NumPy's rounding, behind \<open>Series.round(1)\<close> and \<open>round\<close> of a NumPy float: multiply by
  10, \<open>rint\<close>, divide by 10, each step in doubles.
\<close>

definition np_round1 :: "rat \<Rightarrow> rat" where
  "np_round1 x = float64 (of_int (round_half_even (float64 (x * 10))) / 10)"

text \<open>
  \<open>part / whole * 100\<close> on integers, which are counts of rows and so exact as doubles:
  a true division, then a product.
\<close>

definition float_percent :: "int \<Rightarrow> int \<Rightarrow> rat" where
  "float_percent part whole = float64 (float64 (of_int part / of_int whole) * 100)"

definition percentage :: "int \<Rightarrow> int \<Rightarrow> rat" where
  "percentage part whole = py_round1 (float_percent part whole)"

definition percentage_np :: "int \<Rightarrow> int \<Rightarrow> rat" where
  "percentage_np part whole = np_round1 (float_percent part whole)"

text \<open>\<open>(x == 'Started').sum()\<close> and \<open>len(df[df['Status_Clean'] == 'Started'])\<close>.\<close>

definition count_eq :: "cell \<Rightarrow> cell list \<Rightarrow> int" where
  "count_eq v xs = int (length (filter (\<lambda>x. x = v) xs))"

text \<open>\<open>Series.count()\<close>: the number of non-missing cells.\<close>

definition count_notna :: "cell list \<Rightarrow> int" where
  "count_notna xs = int (length (filter (\<lambda>x. \<not> isna x) xs))"

text \<open>
  \<open>Series.sum()\<close> as a number.  Booleans count as 0 and 1 and missing values are
  skipped.  A column holding text has no numeric sum: pandas concatenates or raises, and
  the arithmetic done with the result raises \<open>TypeError\<close>.
\<close>

fun is_text :: "cell \<Rightarrow> bool" where
  "is_text (StrV s) = True"
| "is_text _ = False"

text \<open>\<open>isinstance(x, bool)\<close>: what a Boolean column such as \<open>Is_Completed\<close> holds.\<close>

fun is_boolean :: "cell \<Rightarrow> bool" where
  "is_boolean (BoolV b) = True"
| "is_boolean _ = False"

fun cell_num :: "cell \<Rightarrow> int" where
  "cell_num (BoolV b) = (if b then 1 else 0)"
| "cell_num (IntV i) = i"
| "cell_num _ = 0"

definition sum_cells :: "cell list \<Rightarrow> py_error + int" where
  "sum_cells xs =
     (if list_ex is_text xs then Inl TypeError else Inr (sum_list (map cell_num xs)))"

text \<open>
  \<open>x.astype(int).sum()\<close>: the cast accepts Booleans and integers and rejects a missing
  value; text is rejected too (the model does not parse numerals).
\<close>

definition sum_astype_int :: "cell list \<Rightarrow> py_error + int" where
  "sum_astype_int xs =
     (if list_ex (\<lambda>x. is_text x \<or> isna x) xs then Inl ValueError
      else Inr (sum_list (map cell_num xs)))"

subsection \<open>\<open>calculate_kpis\<close> (the same text in both files)\<close>

record kpis =
  total_students :: int
  started :: int
  not_started :: int
  completed :: int
  in_progress :: int
  start_rate :: rat
  completion_rate :: rat
  top_tutor :: string
  top_team :: string
  top_course :: string

text \<open>
  \<open>value_counts().index[0]\<close>: the most frequent non-missing value; on an index without
  entries the subscript raises \<open>IndexError\<close>.  Among equally frequent values the model
  takes the one seen first; pandas leaves that order open.
\<close>

definition uniq :: "'a list \<Rightarrow> 'a list" where
  "uniq xs = rev (remdups (rev xs))"

fun pick_max :: "('a \<Rightarrow> nat) \<Rightarrow> 'a \<Rightarrow> 'a list \<Rightarrow> 'a" where
  "pick_max f best [] = best"
| "pick_max f best (x # xs) = pick_max f (if f best < f x then x else best) xs"

definition value_counts_first :: "cell list \<Rightarrow> py_error + cell" where
  "value_counts_first xs =
     (let vs = filter (\<lambda>x. \<not> isna x) xs
      in case uniq vs of
           [] \<Rightarrow> Inl IndexError
         | k # ks \<Rightarrow> Inr (pick_max (count_list vs) k ks))"

definition top_of :: "string \<Rightarrow> table \<Rightarrow> py_error + string" where
  "top_of name df =
     (if has_col name df \<and> col df name \<noteq> []
      then (case value_counts_first (col df name) of
              Inl e \<Rightarrow> Inl e
            | Inr v \<Rightarrow> Inr (take 20 (py_str v)))
      else Inr ''N/A'')"

text \<open>
  The result is \<open>None\<close> for the empty dictionary returned on an empty frame.  \<open>started\<close> and
  \<open>total_students\<close> are Python integers, so \<open>start_rate\<close> is rounded by Python's \<open>round\<close>; the
  sum of the Boolean column \<open>Is_Completed\<close> is a NumPy integer, so \<open>completion_rate\<close> is a
  NumPy float and \<open>round\<close> defers to NumPy's rounding; without the column \<open>completed\<close> is the
  Python integer 0.
\<close>

definition calculate_kpis :: "table \<Rightarrow> py_error + kpis option" where
  "calculate_kpis df =
     (if df_empty df then Inr None
      else
        let total = int (nrows df);
            n_started = (if has_col ''Status_Clean'' df
                         then count_eq started_label (col df ''Status_Clean'') else 0)
        in case (if has_col ''Is_Completed'' df then sum_cells (col df ''Is_Completed'')
                 else Inr 0) of
             Inl e \<Rightarrow> Inl e
           | Inr n_completed \<Rightarrow>
               (case top_of ''Tutor'' df of
                  Inl e \<Rightarrow> Inl e
                | Inr tutor \<Rightarrow>
                    (case top_of ''Team'' df of
                       Inl e \<Rightarrow> Inl e
                     | Inr team \<Rightarrow>
                         (case top_of ''Course'' df of
                            Inl e \<Rightarrow> Inl e
                          | Inr course \<Rightarrow>
                              Inr (Some \<lparr>total_students = total,
                                         started = n_started,
                                         not_started = total - n_started,
                                         completed = n_completed,
                                         in_progress = n_started - n_completed,
                                         start_rate = (if 0 < total
                                                       then percentage n_started total else 0),
                                         completion_rate =
                                           (if 0 < total
                                            then (if has_col ''Is_Completed'' df
                                                  then percentage_np n_completed total
                                                  else percentage n_completed total)
                                            else 0),
                                         top_tutor = tutor,
                                         top_team = team,
                                         top_course = course\<rparr>)))))"

subsection \<open>Grouped breakdowns\<close>

text \<open>
  One row of a breakdown frame.  A field is \<open>None\<close> when the frame has no such column:
  only the tutor breakdown has \<open>In_Progress\<close> and \<open>Start_Rate_%\<close>.
\<close>

record perf_row =
  group_key :: cell
  Total_Students :: int
  Started :: int
  Completed :: int
  In_Progress :: "int option"
  Start_Rate :: "rat option"
  Completion_Rate :: "rat option"

text \<open>The cells of a column in the rows whose grouping value is \<open>k\<close>.\<close>

definition select :: "cell \<Rightarrow> cell list \<Rightarrow> cell list \<Rightarrow> cell list" where
  "select k keys vs = map snd (filter (\<lambda>p. fst p = k) (zip keys vs))"

fun collect :: "(py_error + 'a) list \<Rightarrow> py_error + 'a list" where
  "collect [] = Inr []"
| "collect (r # rs) =
     (case r of
        Inl e \<Rightarrow> Inl e
      | Inr x \<Rightarrow> (case collect rs of Inl e \<Rightarrow> Inl e | Inr xs \<Rightarrow> Inr (x # xs)))"

text \<open>
  \<open>df.groupby(key).agg(Total_Students=('Student_Name', 'count'),
  Started=('Status_Clean', lambda x: (x == 'Started').sum()), Completed=('Is_Completed', f)
  [, In_Progress=('Completion_Status', lambda x: (x == 'In Progress').sum())]).reset_index()\<close>.
  Rows with a missing grouping value are dropped; a column named in the aggregation
  and absent from the frame raises \<open>KeyError\<close>.  The groups are listed in first-seen
  order; pandas orders them by key, which shows only among equal totals after the
  final sort.  Keys are compared as cells; that Python takes \<open>True\<close> and \<open>1\<close> for one key is
  not modelled.
\<close>

definition groupby_agg ::
  "string \<Rightarrow> (cell list \<Rightarrow> py_error + int) \<Rightarrow> bool \<Rightarrow> table \<Rightarrow> py_error + perf_row list" where
  "groupby_agg key completed_agg with_in_progress df =
     (if \<not> has_col ''Student_Name'' df \<or> \<not> has_col ''Status_Clean'' df
         \<or> \<not> has_col ''Is_Completed'' df
         \<or> (with_in_progress \<and> \<not> has_col ''Completion_Status'' df)
      then Inl KeyError
      else
        let keys = col df key
        in collect
             (map (\<lambda>k.
                     case completed_agg (select k keys (col df ''Is_Completed'')) of
                       Inl e \<Rightarrow> Inl e
                     | Inr c \<Rightarrow>
                         Inr \<lparr>group_key = k,
                              Total_Students = count_notna (select k keys (col df ''Student_Name'')),
                              Started = count_eq started_label
                                          (select k keys (col df ''Status_Clean'')),
                              Completed = c,
                              In_Progress =
                                (if with_in_progress
                                 then Some (count_eq (StrV ''In Progress'')
                                              (select k keys (col df ''Completion_Status'')))
                                 else None),
                              Start_Rate = None,
                              Completion_Rate = None\<rparr>)
                  (uniq (filter (\<lambda>x. \<not> isna x) keys))))"

text \<open>The two \<open>np.where\<close> columns; the quotients are columns of doubles, rounded by NumPy.\<close>

definition add_start_rate :: "perf_row \<Rightarrow> perf_row" where
  "add_start_rate r =
     r\<lparr>Start_Rate := Some (if 0 < Total_Students r
                           then percentage_np (Started r) (Total_Students r) else 0)\<rparr>"

definition add_completion_rate :: "perf_row \<Rightarrow> perf_row" where
  "add_completion_rate r =
     r\<lparr>Completion_Rate := Some (if 0 < Started r
                                then percentage_np (Completed r) (Started r) else 0)\<rparr>"

text \<open>
  \<open>sort_values('Total_Students', ascending=False)\<close>.  The order among rows with equal
  totals is not fixed by pandas' default sort; the model keeps their order.
\<close>

definition sort_values_desc :: "perf_row list \<Rightarrow> perf_row list" where
  "sort_values_desc rows = sort_key (\<lambda>r. - Total_Students r) rows"

text \<open>\<open>create_tutor_performance\<close> and \<open>create_team_performance\<close> read the same in both files.\<close>

definition create_tutor_performance :: "table \<Rightarrow> py_error + perf_row list" where
  "create_tutor_performance df =
     (if df_empty df \<or> \<not> has_col ''Tutor'' df then Inr []
      else case groupby_agg ''Tutor'' sum_cells True df of
             Inl e \<Rightarrow> Inl e
           | Inr tutor_stats \<Rightarrow>
               Inr (sort_values_desc (map (add_completion_rate \<circ> add_start_rate) tutor_stats)))"

definition create_team_performance :: "table \<Rightarrow> py_error + perf_row list" where
  "create_team_performance df =
     (if df_empty df \<or> \<not> has_col ''Team'' df then Inr []
      else case groupby_agg ''Team'' sum_cells False df of
             Inl e \<Rightarrow> Inl e
           | Inr team_stats \<Rightarrow> Inr (sort_values_desc (map add_completion_rate team_stats)))"

definition create_course_analysis_service :: "table \<Rightarrow> py_error + perf_row list" where
  "create_course_analysis_service df =
     (if df_empty df \<or> \<not> has_col ''Course'' df then Inr []
      else case groupby_agg ''Course'' sum_astype_int False df of
             Inl e \<Rightarrow> Inl e
           | Inr course_stats \<Rightarrow> Inr (sort_values_desc (map add_completion_rate course_stats)))"

definition create_course_analysis_simple :: "table \<Rightarrow> py_error + perf_row list" where
  "create_course_analysis_simple df =
     (if df_empty df \<or> \<not> has_col ''Course'' df then Inr []
      else case groupby_agg ''Course'' sum_cells False df of
             Inl e \<Rightarrow> Inl e
           | Inr course_stats \<Rightarrow> Inr (sort_values_desc (map add_completion_rate course_stats)))"

section \<open>Source adapters\<close>

text \<open>
  A decoded JSON document.  The second component of an adapter's result is a Python
  value that is \<open>None\<close>, a message, or a value taken from the response body, so it is given
  as a JSON value as well: \<open>JNull\<close> is \<open>None\<close> and \<open>JStr\<close> is a string.
  \<open>JObj\<close> holds the items of a decoded dictionary, whose keys are distinct.
\<close>

datatype json =
  JNull | JBool bool | JNum int | JStr string | JArr "json list" | JObj "(string \<times> json) list"

text \<open>
  What the \<open>try\<close> block of \<open>fetch_data_from_sheets\<close> meets: \<open>Raised msg\<close> when
  \<open>requests.get\<close>, \<open>raise_for_status\<close> or \<open>response.json()\<close> raises an exception whose text is
  \<open>msg\<close> (a transport failure, a status outside 2xx, a body that is not JSON);
  otherwise \<open>Body data frame\<close>, the decoded body together with what
  \<open>pd.DataFrame(data['data'])\<close> does should it be called: it raises with a text or builds
  a frame.
\<close>

datatype http_outcome = Raised string | Body json "string + table"

text \<open>The text of the \<open>AttributeError\<close> of \<open>data.get\<close> on a body that is not a dictionary.\<close>

fun type_name :: "json \<Rightarrow> string" where
  "type_name JNull = ''NoneType''"
| "type_name (JBool b) = ''bool''"
| "type_name (JNum n) = ''int''"
| "type_name (JStr s) = ''str''"
| "type_name (JArr xs) = ''list''"
| "type_name (JObj ms) = ''dict''"

definition no_get_message :: "json \<Rightarrow> string" where
  "no_get_message data =
     CHR 0x27 # type_name data @ CHR 0x27 # '' object has no attribute ''
       @ CHR 0x27 # ''get'' @ [CHR 0x27]"

fun fetch_data_from_sheets :: "http_outcome \<Rightarrow> table option \<times> json" where
  "fetch_data_from_sheets (Raised msg) = (None, JStr msg)"
| "fetch_data_from_sheets (Body (JObj members) frame) =
     (case map_of members ''data'' of
        Some rows \<Rightarrow>
          (case frame of
             Inl msg \<Rightarrow> (None, JStr msg)
           | Inr df \<Rightarrow> (Some df, JNull))
      | None \<Rightarrow>
          (None, (case map_of members ''error'' of
                    Some e \<Rightarrow> e
                  | None \<Rightarrow> JStr ''Unknown error'')))"
| "fetch_data_from_sheets (Body data frame) = (None, JStr (no_get_message data))"

text \<open>
  \<open>load_csv_file\<close>: \<open>pd.read_csv\<close> either raises with a text or returns a frame.
\<close>

fun load_csv_file :: "string + table \<Rightarrow> table option \<times> string option" where
  "load_csv_file (Inl msg) = (None, Some msg)"
| "load_csv_file (Inr df) = (Some df, None)"

section \<open>Source adapters: result shapes\<close>

text \<open>
  C8, as stated, at a concrete response: the body \<open>{"error": null}\<close> is a dictionary without
  \<open>data\<close>, so \<open>data.get('error', 'Unknown error')\<close> hands back the member's value, \<open>None\<close>.
  The pair returned is \<open>(None, None)\<close>: neither a frame with \<open>None\<close> nor \<open>None\<close> with a message.
\<close>

theorem fetch_error_member_null:
  "fetch_data_from_sheets (Body (JObj [(''error'', JNull)]) (Inl [])) = (None, JNull)"
  by simp

text \<open>
  C8, amended: \<open>fetch_data_from_sheets\<close> never lets an exception out and returns exactly one
  of these pairs.  The frame \<open>pd.DataFrame(data['data'])\<close> with \<open>None\<close>, when the body is a
  dictionary with a \<open>data\<close> member and the frame is built.  \<open>None\<close> with the text of the
  exception caught, when the request, the status check or the JSON decoding raises, when
  building the frame raises, or when the body is not a dictionary (the text is then that of
  the \<open>AttributeError\<close> of \<open>data.get\<close>).  \<open>None\<close> with \<open>'Unknown error'\<close>, when the body is a
  dictionary with neither a \<open>data\<close> nor an \<open>error\<close> member.  \<open>None\<close> with the value of the
  \<open>error\<close> member, whatever it is, when the body is a dictionary without \<open>data\<close> and with
  \<open>error\<close>.  \<open>load_csv_file\<close> returns the frame read with \<open>None\<close>, or \<open>None\<close> with the text
  of the exception that \<open>pd.read_csv\<close> raised.
\<close>

theorem source_adapter_result_shape:
  "((\<exists>members rows df.
        env = Body (JObj members) (Inr df) \<and> map_of members ''data'' = Some rows
        \<and> fetch_data_from_sheets env = (Some df, JNull))
     \<or> (\<exists>msg. env = Raised msg \<and> fetch_data_from_sheets env = (None, JStr msg))
     \<or> (\<exists>members rows msg.
            env = Body (JObj members) (Inl msg) \<and> map_of members ''data'' = Some rows
            \<and> fetch_data_from_sheets env = (None, JStr msg))
     \<or> (\<exists>data frame.
            env = Body data frame \<and> type_name data \<noteq> ''dict''
            \<and> fetch_data_from_sheets env = (None, JStr (no_get_message data)))
     \<or> (\<exists>members frame.
            env = Body (JObj members) frame \<and> map_of members ''data'' = None
            \<and> map_of members ''error'' = None
            \<and> fetch_data_from_sheets env = (None, JStr ''Unknown error''))
     \<or> (\<exists>members frame e.
            env = Body (JObj members) frame \<and> map_of members ''data'' = None
            \<and> map_of members ''error'' = Some e
            \<and> fetch_data_from_sheets env = (None, e)))
   \<and> ((\<exists>df. r = Inr df \<and> load_csv_file r = (Some df, None))
        \<or> (\<exists>msg. r = Inl msg \<and> load_csv_file r = (None, Some msg)))"
proof
  show "(\<exists>members rows df.
        env = Body (JObj members) (Inr df) \<and> map_of members ''data'' = Some rows
        \<and> fetch_data_from_sheets env = (Some df, JNull))
     \<or> (\<exists>msg. env = Raised msg \<and> fetch_data_from_sheets env = (None, JStr msg))
     \<or> (\<exists>members rows msg.
            env = Body (JObj members) (Inl msg) \<and> map_of members ''data'' = Some rows
            \<and> fetch_data_from_sheets env = (None, JStr msg))
     \<or> (\<exists>data frame.
            env = Body data frame \<and> type_name data \<noteq> ''dict''
            \<and> fetch_data_from_sheets env = (None, JStr (no_get_message data)))
     \<or> (\<exists>members frame.
            env = Body (JObj members) frame \<and> map_of members ''data'' = None
            \<and> map_of members ''error'' = None
            \<and> fetch_data_from_sheets env = (None, JStr ''Unknown error''))
     \<or> (\<exists>members frame e.
            env = Body (JObj members) frame \<and> map_of members ''data'' = None
            \<and> map_of members ''error'' = Some e
            \<and> fetch_data_from_sheets env = (None, e))"
  proof (cases env)
    case (Raised msg)
    then show ?thesis by simp
  next
    case (Body data frame)
    show ?thesis
    proof (cases data)
      case (JObj members)
      with Body show ?thesis
        by (cases "map_of members ''data''"; cases frame; cases "map_of members ''error''") simp_all
    qed (use Body in simp_all)
  qed
next
  show "(\<exists>df. r = Inr df \<and> load_csv_file r = (Some df, None))
        \<or> (\<exists>msg. r = Inl msg \<and> load_csv_file r = (None, Some msg))"
    by (cases r) simp_all
qed

section \<open>Worked inputs\<close>

text \<open>
  C1, the file variant at the text \<open>NOT STARTED\<close>: lower-cased it contains \<open>start\<close>, so
  \<open>simple_dashboard.normalize_dataframe\<close> labels the record \<open>Started\<close>, where the URL
  variant gives \<open>Not Started\<close> for the same text.
\<close>

theorem simple_not_started_text_labelled_started:
  "col (normalize_dataframe_simple
          [(''INDIVIDUAL - STARTED / NOT STARTED'', [StrV ''NOT STARTED''])]) ''Status_Clean''
     = [StrV ''Started'']
   \<and> col (normalize_dataframe_service [(''status'', [StrV ''NOT STARTED''])]) ''Status_Clean''
     = [StrV ''Not Started'']"
  by code_simp

text \<open>
  C10: \<open>in_progress\<close> is \<open>started - completed\<close> with no lower bound.  One record with a
  completion date, a status text that classifies as \<open>Not Started\<close> and no start date gives
  \<open>started = 0\<close>, \<open>completed = 1\<close> and \<open>in_progress = -1\<close>, in both variants.
\<close>

theorem calculate_kpis_in_progress_negative:
  "calculate_kpis (normalize_dataframe_service
       [(''status'', [StrV ''Not Started'']), (''completed_date'', [StrV ''2024-05-01''])])
     = Inr (Some \<lparr>total_students = 1, started = 0, not_started = 1, completed = 1,
                  in_progress = - 1, start_rate = 0, completion_rate = 100,
                  top_tutor = ''N/A'', top_team = ''N/A'', top_course = ''N/A''\<rparr>)
   \<and> calculate_kpis (normalize_dataframe_simple
       [(''INDIVIDUAL - STARTED / NOT STARTED'', [StrV ''No'']),
        (''COURSE COMPLETED DATE'', [StrV ''2024-05-01''])])
     = Inr (Some \<lparr>total_students = 1, started = 0, not_started = 1, completed = 1,
                  in_progress = - 1, start_rate = 0, completion_rate = 100,
                  top_tutor = ''N/A'', top_team = ''N/A'', top_course = ''N/A''\<rparr>)"
  by code_simp

section \<open>Frames: columns and renaming\<close>

lemma has_col_set_col: "has_col m (set_col n vs df) = (m = n \<or> has_col m df)"
  by (induction df) (auto simp: has_col_def columns_def)

lemma col_set_col_same: "col (set_col n vs df) n = vs"
  by (induction df) (auto simp: col_def)

lemma col_set_col_other: "m \<noteq> n \<Longrightarrow> col (set_col n vs df) m = col df m"
  by (induction df) (auto simp: col_def)

lemma set_col_same_value: "has_col n df \<Longrightarrow> set_col n (col df n) df = df"
  by (induction df) (auto simp: has_col_def columns_def col_def)

lemma set_col_twice: "set_col n vs (set_col n ws df) = set_col n vs df"
  by (induction df) auto

lemma set_col_not_Nil: "set_col n vs df \<noteq> []"
  by (cases df) auto

lemma columns_set_col:
  "columns (set_col n vs df) = (if has_col n df then columns df else columns df @ [n])"
  by (induction df) (auto simp: has_col_def columns_def)

lemma set_col_lengths:
  "list_all (\<lambda>c. length (snd c) = k) df \<Longrightarrow> length vs = k
     \<Longrightarrow> list_all (\<lambda>c. length (snd c) = k) (set_col n vs df)"
  by (induction df) auto

lemma nrows_set_col:
  "df \<noteq> [] \<Longrightarrow> length vs = nrows df \<Longrightarrow> nrows (set_col n vs df) = nrows df"
  by (cases df) (auto simp: nrows_def)

lemma wf_table_set_col:
  "wf_table df \<Longrightarrow> df \<noteq> [] \<Longrightarrow> length vs = nrows df \<Longrightarrow> wf_table (set_col n vs df)"
  by (auto simp: wf_table_def nrows_set_col columns_set_col set_col_lengths has_col_def)

lemma length_col: "wf_table df \<Longrightarrow> has_col n df \<Longrightarrow> length (col df n) = nrows df"
proof -
  assume wf: "wf_table df" and h: "has_col n df"
  from h have "map_of df n \<noteq> None"
    by (simp add: has_col_def columns_def map_of_eq_None_iff)
  then obtain vs where m: "map_of df n = Some vs" by blast
  then have "(n, vs) \<in> set df" by (rule map_of_SomeD)
  with wf have "length vs = nrows df" by (auto simp: wf_table_def list_all_iff)
  with m show ?thesis by (simp add: col_def)
qed

lemma df_empty_set_col:
  "\<not> df_empty df \<Longrightarrow> length vs = nrows df \<Longrightarrow> \<not> df_empty (set_col n vs df)"
  by (auto simp: df_empty_def nrows_set_col set_col_not_Nil)

subsection \<open>Renaming\<close>

lemma nrows_rename: "nrows (rename m df) = nrows df"
  by (cases df) (auto simp: nrows_def rename_def)

lemma df_empty_rename: "df_empty (rename m df) = df_empty df"
  by (simp add: df_empty_def nrows_rename) (simp add: rename_def)

lemma columns_rename: "columns (rename m df) = map (rename_label m) (columns df)"
  by (simp add: rename_def columns_def comp_def)

lemma rename_label_not_source:
  assumes "set (map snd m) \<inter> set (map fst m) = {}"
  shows "rename_label m l \<notin> set (map fst m)"
proof (cases "map_of m l")
  case None
  then have "l \<notin> set (map fst m)" by (simp add: map_of_eq_None_iff)
  with None show ?thesis by (simp add: rename_label_def)
next
  case (Some a)
  then have "(l, a) \<in> set m" by (rule map_of_SomeD)
  then have "a \<in> set (map snd m)" by force
  with assms have "a \<notin> set (map fst m)" by blast
  with Some show ?thesis by (simp add: rename_label_def)
qed

lemma rename_no_source:
  "set (columns df) \<inter> set (map fst m) = {} \<Longrightarrow> rename m df = df"
proof -
  assume d: "set (columns df) \<inter> set (map fst m) = {}"
  have "\<And>c. c \<in> set df \<Longrightarrow> rename_label m (fst c) = fst c"
  proof -
    fix c assume "c \<in> set df"
    then have "fst c \<in> set (columns df)" by (simp add: columns_def)
    with d have "fst c \<notin> set (map fst m)" by blast
    then have "map_of m (fst c) = None" by (simp add: map_of_eq_None_iff)
    then show "rename_label m (fst c) = fst c" by (simp add: rename_label_def)
  qed
  then show ?thesis by (simp add: rename_def map_idI)
qed

lemma rename_loop_eq_rename:
  "distinct (map fst m) \<Longrightarrow> set (map snd m) \<inter> set (map fst m) = {}
     \<Longrightarrow> rename_loop m df = rename m df"
proof (induction m arbitrary: df)
  case Nil
  show ?case by (simp add: rename_loop_def rename_def rename_label_def)
next
  case (Cons p m)
  obtain old new where p: "p = (old, new)" by (cases p)
  have step: "(if has_col old df then rename [(old, new)] df else df) = rename [(old, new)] df"
    by (auto simp: has_col_def intro!: rename_no_source [symmetric])
  from Cons.prems p have d: "distinct (map fst m)"
    and i: "set (map snd m) \<inter> set (map fst m) = {}"
    and new: "new \<notin> set (map fst m)" and old: "old \<notin> set (map fst m)"
    by auto
  have "rename_loop (p # m) df = rename_loop m (rename [(old, new)] df)"
    using step by (simp add: rename_loop_def p)
  also have "\<dots> = rename m (rename [(old, new)] df)"
    using d i by (rule Cons.IH)
  also have "\<dots> = rename (p # m) df"
  proof -
    have n: "map_of m new = None" using new by (simp add: map_of_eq_None_iff)
    have "rename_label m (rename_label [(old, new)] l) = rename_label (p # m) l" for l
      by (cases "l = old") (simp_all add: rename_label_def p n)
    then show ?thesis by (simp add: rename_def comp_def)
  qed
  finally show ?case .
qed

section \<open>Normalisation: the blocks\<close>

lemma set_col_absorb: "has_col n df \<Longrightarrow> col df n = vs \<Longrightarrow> set_col n vs df = df"
  using set_col_same_value by blast

lemma length_force_started:
  "length (force_started ds ss) = min (length ds) (length ss)"
  by (simp add: force_started_def)

lemma force_started_idem:
  "force_started ds (force_started ds ss) = force_started ds ss"
proof (induction ds arbitrary: ss)
  case Nil
  show ?case by (simp add: force_started_def)
next
  case (Cons d ds)
  then show ?case by (cases ss) (auto simp: force_started_def)
qed

text \<open>The status blocks of the URL variant, as one assignment.\<close>

lemma status_blocks_service:
  "cross_verify_started_date (normalize_status_service df) =
     (if has_col ''Status'' df
      then set_col ''Status_Clean''
             (if has_col ''Started_Date'' df
              then force_started (col df ''Started_Date'') (map clean_status (col df ''Status''))
              else map clean_status (col df ''Status'')) df
      else if has_col ''Started_Date'' df \<and> has_col ''Status_Clean'' df
           then set_col ''Status_Clean''
                  (force_started (col df ''Started_Date'') (col df ''Status_Clean'')) df
           else df)"
  by (simp add: cross_verify_started_date_def normalize_status_service_def
      has_col_set_col col_set_col_same col_set_col_other set_col_twice)

lemma has_col_status_blocks_service:
  "has_col m (cross_verify_started_date (normalize_status_service df))
     = (has_col m df \<or> (m = ''Status_Clean'' \<and> has_col ''Status'' df))"
  by (auto simp: status_blocks_service has_col_set_col)

lemma col_status_blocks_service:
  "m \<noteq> ''Status_Clean''
     \<Longrightarrow> col (cross_verify_started_date (normalize_status_service df)) m = col df m"
  by (simp add: status_blocks_service col_set_col_other)

lemma status_blocks_service_wf:
  assumes "wf_table df" and "\<not> df_empty df"
  shows "wf_table (cross_verify_started_date (normalize_status_service df))"
    and "nrows (cross_verify_started_date (normalize_status_service df)) = nrows df"
    and "\<not> df_empty (cross_verify_started_date (normalize_status_service df))"
proof -
  from assms have nn: "df \<noteq> []" by (auto simp: df_empty_def)
  have len: "has_col n df \<Longrightarrow> length (col df n) = nrows df" for n
    using assms(1) by (rule length_col)
  show "wf_table (cross_verify_started_date (normalize_status_service df))"
    using assms nn len
    by (simp add: status_blocks_service wf_table_set_col length_force_started)
  show "nrows (cross_verify_started_date (normalize_status_service df)) = nrows df"
    using assms nn len
    by (simp add: status_blocks_service nrows_set_col length_force_started)
  show "\<not> df_empty (cross_verify_started_date (normalize_status_service df))"
    using assms nn len
    by (simp add: status_blocks_service df_empty_set_col length_force_started)
qed

text \<open>The completion block of the URL variant, as two assignments.\<close>

lemma has_col_add_completion_service:
  "has_col m (add_completion_status_service df)
     = (has_col m df \<or> m = ''Is_Completed'' \<or> m = ''Completion_Status'')"
  by (auto simp: add_completion_status_service_def Let_def has_col_set_col)

lemma col_add_completion_service_other:
  "m \<noteq> ''Is_Completed'' \<Longrightarrow> m \<noteq> ''Completion_Status''
     \<Longrightarrow> col (add_completion_status_service df) m = col df m"
  by (simp add: add_completion_status_service_def Let_def col_set_col_other)

lemma col_add_completion_service_flag:
  "col (add_completion_status_service df) ''Is_Completed''
     = (if has_col ''Completed_Date'' df
        then map completed_check_service (col df ''Completed_Date'')
        else replicate (nrows df) (BoolV False))"
  by (simp add: add_completion_status_service_def Let_def col_set_col_other col_set_col_same)

lemma add_completion_service_wf:
  assumes "wf_table df" and "\<not> df_empty df"
  shows "wf_table (add_completion_status_service df)"
    and "nrows (add_completion_status_service df) = nrows df"
    and "\<not> df_empty (add_completion_status_service df)"
proof -
  from assms have nn: "df \<noteq> []" by (auto simp: df_empty_def)
  have len: "has_col n df \<Longrightarrow> length (col df n) = nrows df" for n
    using assms(1) by (rule length_col)
  show "wf_table (add_completion_status_service df)"
    using assms nn len
    by (simp add: add_completion_status_service_def Let_def wf_table_set_col nrows_set_col
        col_set_col_same set_col_not_Nil)
  show "nrows (add_completion_status_service df) = nrows df"
    using assms nn len
    by (simp add: add_completion_status_service_def Let_def nrows_set_col
        col_set_col_same set_col_not_Nil)
  show "\<not> df_empty (add_completion_status_service df)"
    using assms nn len
    by (simp add: add_completion_status_service_def Let_def df_empty_set_col nrows_set_col
        col_set_col_same set_col_not_Nil)
qed

lemma add_completion_service_idem:
  assumes "wf_table df" and "\<not> df_empty df"
  shows "add_completion_status_service (add_completion_status_service df)
           = add_completion_status_service df"
proof -
  let ?T = "add_completion_status_service df"
  have n: "nrows ?T = nrows df" using assms by (rule add_completion_service_wf)
  have cd: "col ?T ''Completed_Date'' = col df ''Completed_Date''"
    by (simp add: col_add_completion_service_other)
  have hcd: "has_col ''Completed_Date'' ?T = has_col ''Completed_Date'' df"
    by (simp add: has_col_add_completion_service)
  have flag: "set_col ''Is_Completed''
                (if has_col ''Completed_Date'' df
                 then map completed_check_service (col df ''Completed_Date'')
                 else replicate (nrows df) (BoolV False)) ?T = ?T"
    by (rule set_col_absorb) (simp_all add: has_col_add_completion_service
        col_add_completion_service_flag)
  have label: "col ?T ''Completion_Status''
                 = (if has_col ''Completed_Date'' df
                    then map completion_label (col ?T ''Is_Completed'')
                    else replicate (nrows ?T) (StrV ''In Progress''))"
  proof -
    from assms have nn: "df \<noteq> []" by (auto simp: df_empty_def)
    show ?thesis
      by (simp add: n col_add_completion_service_flag)
        (simp add: add_completion_status_service_def Let_def col_set_col_same
          col_set_col_other nrows_set_col nn)
  qed
  have "add_completion_status_service ?T
          = (if has_col ''Completed_Date'' df
             then set_col ''Completion_Status'' (map completion_label (col ?T ''Is_Completed'')) ?T
             else set_col ''Completion_Status'' (replicate (nrows ?T) (StrV ''In Progress'')) ?T)"
    unfolding add_completion_status_service_def [of ?T] Let_def hcd cd n
    using flag by (simp add: n split: if_splits)
  also have "\<dots> = ?T"
    using label by (simp add: set_col_absorb has_col_add_completion_service)
  finally show ?thesis .
qed

lemma status_blocks_service_absorb:
  "cross_verify_started_date (normalize_status_service
     (add_completion_status_service (cross_verify_started_date (normalize_status_service df))))
   = add_completion_status_service (cross_verify_started_date (normalize_status_service df))"
proof -
  let ?S = "cross_verify_started_date (normalize_status_service df)"
  let ?T = "add_completion_status_service ?S"
  have h: "has_col m ?T = (has_col m df \<or> (m = ''Status_Clean'' \<and> has_col ''Status'' df)
             \<or> m = ''Is_Completed'' \<or> m = ''Completion_Status'')" for m
    by (simp add: has_col_add_completion_service has_col_status_blocks_service)
  have c1: "col ?T ''Status'' = col df ''Status''"
    by (simp add: col_add_completion_service_other col_status_blocks_service)
  have c2: "col ?T ''Started_Date'' = col df ''Started_Date''"
    by (simp add: col_add_completion_service_other col_status_blocks_service)
  have c3: "col ?T ''Status_Clean'' = col ?S ''Status_Clean''"
    by (simp add: col_add_completion_service_other)
  have s: "col ?S ''Status_Clean'' =
     (if has_col ''Status'' df
      then (if has_col ''Started_Date'' df
              then force_started (col df ''Started_Date'') (map clean_status (col df ''Status''))
              else map clean_status (col df ''Status''))
      else if has_col ''Started_Date'' df \<and> has_col ''Status_Clean'' df
           then force_started (col df ''Started_Date'') (col df ''Status_Clean'')
           else col df ''Status_Clean'')"
    by (simp add: status_blocks_service col_set_col_same)
  show ?thesis
    unfolding status_blocks_service [of ?T]
    by (simp add: h c1 c2 c3 s set_col_absorb force_started_idem)
qed

lemma has_col_normalize_status_simple:
  "has_col m (normalize_status_simple df)
     = (has_col m df \<or> (m = ''Status_Clean'' \<and> has_col ''Status'' df))"
  by (auto simp: normalize_status_simple_def has_col_set_col)

lemma col_normalize_status_simple:
  "m \<noteq> ''Status_Clean'' \<Longrightarrow> col (normalize_status_simple df) m = col df m"
  by (simp add: normalize_status_simple_def col_set_col_other)

lemma has_col_add_completion_simple:
  "has_col m (add_completion_status_simple df)
     = (has_col m df
        \<or> ((m = ''Is_Completed'' \<or> m = ''Completion_Status'') \<and> has_col ''Completed_Date'' df))"
  by (auto simp: add_completion_status_simple_def Let_def has_col_set_col)

lemma col_add_completion_simple_other:
  "m \<noteq> ''Is_Completed'' \<Longrightarrow> m \<noteq> ''Completion_Status''
     \<Longrightarrow> col (add_completion_status_simple df) m = col df m"
  by (simp add: add_completion_status_simple_def Let_def col_set_col_other)

lemma col_add_completion_simple_flag:
  "has_col ''Completed_Date'' df
     \<Longrightarrow> col (add_completion_status_simple df) ''Is_Completed''
           = map completed_check_simple (col df ''Completed_Date'')"
  by (simp add: add_completion_status_simple_def Let_def col_set_col_other col_set_col_same)

lemma simple_blocks_wf:
  assumes "wf_table df" and "\<not> df_empty df"
  shows "\<not> df_empty (add_completion_status_simple (normalize_status_simple df))"
    and "nrows (add_completion_status_simple (normalize_status_simple df)) = nrows df"
proof -
  from assms have nn: "df \<noteq> []" by (auto simp: df_empty_def)
  have len: "has_col n df \<Longrightarrow> length (col df n) = nrows df" for n
    using assms(1) by (rule length_col)
  show n: "nrows (add_completion_status_simple (normalize_status_simple df)) = nrows df"
    using assms nn len
    by (simp add: add_completion_status_simple_def normalize_status_simple_def Let_def
        nrows_set_col col_set_col_same col_set_col_other set_col_not_Nil has_col_set_col)
  have "add_completion_status_simple (normalize_status_simple df) \<noteq> []"
    using nn
    by (simp add: add_completion_status_simple_def normalize_status_simple_def Let_def
        set_col_not_Nil)
  with n assms show "\<not> df_empty (add_completion_status_simple (normalize_status_simple df))"
    by (simp add: df_empty_def)
qed

lemma simple_blocks_idem:
  "add_completion_status_simple (normalize_status_simple
     (add_completion_status_simple (normalize_status_simple df)))
   = add_completion_status_simple (normalize_status_simple df)"
proof -
  let ?S = "normalize_status_simple df"
  let ?T = "add_completion_status_simple ?S"
  have hT: "has_col m ?T = (has_col m df \<or> (m = ''Status_Clean'' \<and> has_col ''Status'' df)
             \<or> ((m = ''Is_Completed'' \<or> m = ''Completion_Status'')
                   \<and> has_col ''Completed_Date'' df))" for m
    by (simp add: has_col_add_completion_simple has_col_normalize_status_simple)
  have c1: "col ?T ''Status'' = col df ''Status''"
    by (simp add: col_add_completion_simple_other col_normalize_status_simple)
  have c3: "has_col ''Status'' df
              \<Longrightarrow> col ?T ''Status_Clean'' = map status_simple (col df ''Status'')"
    by (simp add: col_add_completion_simple_other)
      (simp add: normalize_status_simple_def col_set_col_same)
  have st: "normalize_status_simple ?T = ?T"
    unfolding normalize_status_simple_def [of ?T]
    by (simp add: hT c1 c3 set_col_absorb)
  have cd: "col ?T ''Completed_Date'' = col ?S ''Completed_Date''"
    by (simp add: col_add_completion_simple_other)
  have flag: "has_col ''Completed_Date'' df
     \<Longrightarrow> set_col ''Is_Completed'' (map completed_check_simple (col ?S ''Completed_Date'')) ?T = ?T"
    by (rule set_col_absorb)
      (simp_all add: hT col_add_completion_simple_flag has_col_normalize_status_simple)
  have label: "has_col ''Completed_Date'' df
     \<Longrightarrow> col ?T ''Completion_Status'' = map completion_label (col ?T ''Is_Completed'')"
    by (simp add: add_completion_status_simple_def Let_def col_set_col_same col_set_col_other
        has_col_normalize_status_simple)
  have "add_completion_status_simple ?T = ?T"
    unfolding add_completion_status_simple_def [of ?T] Let_def cd
    using flag label by (simp add: hT set_col_absorb)
  with st show ?thesis by simp
qed

lemma service_blocks_idem:
  assumes "wf_table df" and "\<not> df_empty df"
  shows "add_completion_status_service (cross_verify_started_date (normalize_status_service
           (add_completion_status_service (cross_verify_started_date
              (normalize_status_service df)))))
         = add_completion_status_service (cross_verify_started_date (normalize_status_service df))"
  using assms
  by (simp add: status_blocks_service_absorb add_completion_service_idem
      status_blocks_service_wf)

subsection \<open>The mappings\<close>

lemma mapping_service_targets:
  "set (map snd column_mapping_service) \<inter> set (map fst column_mapping_service) = {}"
  by (simp add: column_mapping_service_def)

lemma mapping_simple_targets:
  "set (map snd column_mapping_simple) \<inter> set (map fst column_mapping_simple) = {}"
  by (simp add: column_mapping_simple_def)

lemma mapping_simple_distinct: "distinct (map fst column_mapping_simple)"
  by (simp add: column_mapping_simple_def)

lemma derived_not_source_service:
  "''Status_Clean'' \<notin> set (map fst column_mapping_service)"
  "''Is_Completed'' \<notin> set (map fst column_mapping_service)"
  "''Completion_Status'' \<notin> set (map fst column_mapping_service)"
  by (simp_all add: column_mapping_service_def)

lemma derived_not_source_simple:
  "''Status_Clean'' \<notin> set (map fst column_mapping_simple)"
  "''Is_Completed'' \<notin> set (map fst column_mapping_simple)"
  "''Completion_Status'' \<notin> set (map fst column_mapping_simple)"
  by (simp_all add: column_mapping_simple_def)

section \<open>Normalisation is idempotent\<close>

lemma normalized_service_no_source:
  "set (columns (add_completion_status_service (cross_verify_started_date
          (normalize_status_service (rename column_mapping_service df)))))
     \<inter> set (map fst column_mapping_service) = {}"
proof -
  have "m \<notin> set (map fst column_mapping_service)"
    if "has_col m (add_completion_status_service (cross_verify_started_date
          (normalize_status_service (rename column_mapping_service df))))" for m
  proof -
    from that consider "has_col m (rename column_mapping_service df)"
      | "m = ''Status_Clean''" | "m = ''Is_Completed''" | "m = ''Completion_Status''"
      by (auto simp: has_col_add_completion_service has_col_status_blocks_service)
    then show ?thesis
    proof cases
      case 1
      then show ?thesis
        using rename_label_not_source [OF mapping_service_targets]
        by (auto simp: has_col_def columns_rename)
    qed (use derived_not_source_service in simp_all)
  qed
  then show ?thesis by (auto simp: has_col_def)
qed

lemma normalized_simple_no_source:
  "set (columns (add_completion_status_simple
          (normalize_status_simple (rename column_mapping_simple df))))
     \<inter> set (map fst column_mapping_simple) = {}"
proof -
  have "m \<notin> set (map fst column_mapping_simple)"
    if "has_col m (add_completion_status_simple
          (normalize_status_simple (rename column_mapping_simple df)))" for m
  proof -
    from that consider "has_col m (rename column_mapping_simple df)"
      | "m = ''Status_Clean''" | "m = ''Is_Completed''" | "m = ''Completion_Status''"
      by (auto simp: has_col_add_completion_simple has_col_normalize_status_simple)
    then show ?thesis
    proof cases
      case 1
      then show ?thesis
        using rename_label_not_source [OF mapping_simple_targets]
        by (auto simp: has_col_def columns_rename)
    qed (use derived_not_source_simple in simp_all)
  qed
  then show ?thesis by (auto simp: has_col_def)
qed

lemma rename_loop_simple: "rename_loop column_mapping_simple df = rename column_mapping_simple df"
  by (rule rename_loop_eq_rename [OF mapping_simple_distinct mapping_simple_targets])

lemma wf_table_rename:
  "wf_table df \<Longrightarrow> distinct (columns (rename m df)) \<Longrightarrow> wf_table (rename m df)"
  by (simp add: wf_table_def nrows_rename) (simp add: rename_def list_all_iff)

lemma normalize_service_idem:
  assumes wf: "wf_table df" and d: "distinct (columns (rename column_mapping_service df))"
  shows "normalize_dataframe_service (normalize_dataframe_service df)
           = normalize_dataframe_service df"
proof (cases "df_empty df")
  case True
  then show ?thesis by (simp add: normalize_dataframe_service_def)
next
  case False
  let ?R = "rename column_mapping_service df"
  let ?T = "add_completion_status_service (cross_verify_started_date
              (normalize_status_service ?R))"
  have wfR: "wf_table ?R" using wf d by (rule wf_table_rename)
  have neR: "\<not> df_empty ?R" using False by (simp add: df_empty_rename)
  have N: "normalize_dataframe_service df = ?T"
    using False by (simp add: normalize_dataframe_service_def)
  have neT: "\<not> df_empty ?T"
    using wfR neR by (simp add: add_completion_service_wf status_blocks_service_wf)
  have "rename column_mapping_service ?T = ?T"
    by (rule rename_no_source) (rule normalized_service_no_source)
  then have "normalize_dataframe_service ?T
      = add_completion_status_service (cross_verify_started_date (normalize_status_service ?T))"
    using neT by (simp add: normalize_dataframe_service_def)
  also have "\<dots> = ?T" using wfR neR by (rule service_blocks_idem)
  finally show ?thesis by (simp add: N)
qed

lemma normalize_simple_idem:
  assumes wf: "wf_table df" and d: "distinct (columns (rename_loop column_mapping_simple df))"
  shows "normalize_dataframe_simple (normalize_dataframe_simple df)
           = normalize_dataframe_simple df"
proof (cases "df_empty df")
  case True
  then show ?thesis by (simp add: normalize_dataframe_simple_def)
next
  case False
  let ?R = "rename column_mapping_simple df"
  let ?T = "add_completion_status_simple (normalize_status_simple ?R)"
  have wfR: "wf_table ?R" using wf d by (simp add: rename_loop_simple wf_table_rename)
  have neR: "\<not> df_empty ?R" using False by (simp add: df_empty_rename)
  have N: "normalize_dataframe_simple df = ?T"
    using False by (simp add: normalize_dataframe_simple_def rename_loop_simple)
  have neT: "\<not> df_empty ?T" using wfR neR by (rule simple_blocks_wf)
  have "rename column_mapping_simple ?T = ?T"
    by (rule rename_no_source) (rule normalized_simple_no_source)
  then have "normalize_dataframe_simple ?T
      = add_completion_status_simple (normalize_status_simple ?T)"
    using neT by (simp add: normalize_dataframe_simple_def rename_loop_simple)
  also have "\<dots> = ?T" by (rule simple_blocks_idem)
  finally show ?thesis by (simp add: N)
qed

text \<open>
  C9: normalising a normalised frame changes nothing, in both variants: the canonical
  columns and the derived \<open>Status_Clean\<close>, \<open>Is_Completed\<close> and \<open>Completion_Status\<close> are
  the same, and so is the whole frame.  The frame is well formed and its labels stay distinct
  under the renaming.
\<close>

theorem normalize_dataframe_idempotent:
  "(wf_table df \<and> distinct (columns (rename column_mapping_service df))
      \<longrightarrow> normalize_dataframe_service (normalize_dataframe_service df)
            = normalize_dataframe_service df)
   \<and> (wf_table df \<and> distinct (columns (rename_loop column_mapping_simple df))
      \<longrightarrow> normalize_dataframe_simple (normalize_dataframe_simple df)
            = normalize_dataframe_simple df)"
  using normalize_service_idem normalize_simple_idem by blast

text \<open>C9 at one frame of each variant.\<close>

theorem normalize_dataframe_idempotent_witness:
  "normalize_dataframe_service (normalize_dataframe_service
      [(''status'', [StrV ''Started'', StrV ''not started'', StrV ''yes'']),
       (''started_date'', [NaN, StrV ''2024-03-01'', StrV '''']),
       (''completed_date'', [StrV ''2023-01-01'', StrV '''', StrV ''NaT''])])
     = [(''Status'', [StrV ''Started'', StrV ''not started'', StrV ''yes'']),
        (''Started_Date'', [NaN, StrV ''2024-03-01'', StrV '''']),
        (''Completed_Date'', [StrV ''2023-01-01'', StrV '''', StrV ''NaT'']),
        (''Status_Clean'', [StrV ''Started'', StrV ''Started'', StrV ''Started'']),
        (''Is_Completed'', [BoolV True, BoolV False, BoolV False]),
        (''Completion_Status'', [StrV ''Completed'', StrV ''In Progress'', StrV ''In Progress''])]
   \<and> normalize_dataframe_simple (normalize_dataframe_simple
      [(''INDIVIDUAL - STARTED / NOT STARTED'', [StrV ''STARTED'', StrV ''No'']),
       (''COURSE COMPLETED DATE'', [StrV ''2023-01-01'', NaN])])
     = [(''Status'', [StrV ''STARTED'', StrV ''No'']),
        (''Completed_Date'', [StrV ''2023-01-01'', NaN]),
        (''Status_Clean'', [StrV ''Started'', StrV ''Not Started'']),
        (''Is_Completed'', [BoolV True, BoolV False]),
        (''Completion_Status'', [StrV ''Completed'', StrV ''In Progress''])]"
proof -
  let ?a = "[(''status'', [StrV ''Started'', StrV ''not started'', StrV ''yes'']),
       (''started_date'', [NaN, StrV ''2024-03-01'', StrV '''']),
       (''completed_date'', [StrV ''2023-01-01'', StrV '''', StrV ''NaT''])]"
  let ?b = "[(''INDIVIDUAL - STARTED / NOT STARTED'', [StrV ''STARTED'', StrV ''No'']),
       (''COURSE COMPLETED DATE'', [StrV ''2023-01-01'', NaN])]"
  have a1: "wf_table ?a \<and> distinct (columns (rename column_mapping_service ?a))"
    by code_simp
  have b1: "wf_table ?b \<and> distinct (columns (rename_loop column_mapping_simple ?b))"
    by code_simp
  have a2: "normalize_dataframe_service ?a
     = [(''Status'', [StrV ''Started'', StrV ''not started'', StrV ''yes'']),
        (''Started_Date'', [NaN, StrV ''2024-03-01'', StrV '''']),
        (''Completed_Date'', [StrV ''2023-01-01'', StrV '''', StrV ''NaT'']),
        (''Status_Clean'', [StrV ''Started'', StrV ''Started'', StrV ''Started'']),
        (''Is_Completed'', [BoolV True, BoolV False, BoolV False]),
        (''Completion_Status'', [StrV ''Completed'', StrV ''In Progress'', StrV ''In Progress''])]"
    by code_simp
  have b2: "normalize_dataframe_simple ?b
     = [(''Status'', [StrV ''STARTED'', StrV ''No'']),
        (''Completed_Date'', [StrV ''2023-01-01'', NaN]),
        (''Status_Clean'', [StrV ''Started'', StrV ''Not Started'']),
        (''Is_Completed'', [BoolV True, BoolV False]),
        (''Completion_Status'', [StrV ''Completed'', StrV ''In Progress''])]"
    by code_simp
  from normalize_dataframe_idempotent [of ?a] a1
  have "normalize_dataframe_service (normalize_dataframe_service ?a)
          = normalize_dataframe_service ?a" by blast
  moreover from normalize_dataframe_idempotent [of ?b] b1
  have "normalize_dataframe_simple (normalize_dataframe_simple ?b)
          = normalize_dataframe_simple ?b" by blast
  ultimately show ?thesis by (simp only: a2 b2) 
qed

section \<open>Completion flag\<close>

lemma completed_check_service_nonnull:
  "completed_check_service x
     = BoolV (py_bool x \<and> \<not> isna x
              \<and> py_strip (py_str x) \<notin> {'''', ''nan'', ''None'', ''NaT''})"
  by (cases x) (simp_all add: completed_check_service_def py_strip_def py_isspace_def)

lemma normalize_service_nonempty:
  "\<not> df_empty df \<Longrightarrow> normalize_dataframe_service df
     = add_completion_status_service (cross_verify_started_date
         (normalize_status_service (rename column_mapping_service df)))"
  by (simp add: normalize_dataframe_service_def)

lemma normalize_simple_nonempty:
  "\<not> df_empty df \<Longrightarrow> normalize_dataframe_simple df
     = add_completion_status_simple (normalize_status_simple (rename_loop column_mapping_simple df))"
  by (simp add: normalize_dataframe_simple_def)

text \<open>
  C2, amended.  URL variant: when the frame has a completion-date column, \<open>Is_Completed\<close>
  of a record is true exactly when the value is truthy (not \<open>None\<close>, not empty text, not
  zero or \<open>False\<close>), is not missing, and its text, trimmed, is none of the empty text,
  \<open>nan\<close>, \<open>None\<close>, \<open>NaT\<close>; without such a column \<open>Is_Completed\<close> is false for every record.
  File variant: when the frame has a completion-date column, \<open>Is_Completed\<close> is true exactly
  when the value is not missing and is not the empty text.
\<close>

theorem is_completed_rule:
  "(wf_table df \<and> \<not> df_empty df \<and> distinct (columns (rename column_mapping_service df))
      \<longrightarrow> col (normalize_dataframe_service df) ''Is_Completed''
            = (if has_col ''Completed_Date'' (rename column_mapping_service df)
               then map (\<lambda>x. BoolV (py_bool x \<and> \<not> isna x
                                      \<and> py_strip (py_str x) \<notin> {'''', ''nan'', ''None'', ''NaT''}))
                      (col (rename column_mapping_service df) ''Completed_Date'')
               else replicate (nrows df) (BoolV False)))
   \<and> (wf_table df \<and> \<not> df_empty df \<and> distinct (columns (rename_loop column_mapping_simple df))
        \<and> has_col ''Completed_Date'' (rename_loop column_mapping_simple df)
      \<longrightarrow> col (normalize_dataframe_simple df) ''Is_Completed''
            = map (\<lambda>x. BoolV (\<not> isna x \<and> x \<noteq> StrV ''''))
                (col (rename_loop column_mapping_simple df) ''Completed_Date''))"
proof (intro conjI impI)
  assume a: "wf_table df \<and> \<not> df_empty df \<and> distinct (columns (rename column_mapping_service df))"
  let ?R = "rename column_mapping_service df"
  let ?S = "cross_verify_started_date (normalize_status_service ?R)"
  have wfR: "wf_table ?R" using a by (simp add: wf_table_rename)
  have neR: "\<not> df_empty ?R" using a by (simp add: df_empty_rename)
  have n: "nrows ?S = nrows df"
    using status_blocks_service_wf(2) [OF wfR neR] by (simp add: nrows_rename)
  have "col (normalize_dataframe_service df) ''Is_Completed''
          = (if has_col ''Completed_Date'' ?S
             then map completed_check_service (col ?S ''Completed_Date'')
             else replicate (nrows ?S) (BoolV False))"
    using a by (simp add: normalize_service_nonempty col_add_completion_service_flag)
  also have "\<dots> = (if has_col ''Completed_Date'' ?R
             then map completed_check_service (col ?R ''Completed_Date'')
             else replicate (nrows df) (BoolV False))"
    by (simp add: has_col_status_blocks_service col_status_blocks_service n)
  finally show "col (normalize_dataframe_service df) ''Is_Completed''
            = (if has_col ''Completed_Date'' ?R
               then map (\<lambda>x. BoolV (py_bool x \<and> \<not> isna x
                                      \<and> py_strip (py_str x) \<notin> {'''', ''nan'', ''None'', ''NaT''}))
                      (col ?R ''Completed_Date'')
               else replicate (nrows df) (BoolV False))"
    by (simp add: completed_check_service_nonnull [abs_def])
next
  assume a: "wf_table df \<and> \<not> df_empty df
      \<and> distinct (columns (rename_loop column_mapping_simple df))
      \<and> has_col ''Completed_Date'' (rename_loop column_mapping_simple df)"
  let ?R = "rename_loop column_mapping_simple df"
  have "col (normalize_dataframe_simple df) ''Is_Completed''
          = map completed_check_simple (col (normalize_status_simple ?R) ''Completed_Date'')"
    using a by (simp add: normalize_simple_nonempty col_add_completion_simple_flag
        has_col_normalize_status_simple)
  then show "col (normalize_dataframe_simple df) ''Is_Completed''
            = map (\<lambda>x. BoolV (\<not> isna x \<and> x \<noteq> StrV '''')) (col ?R ''Completed_Date'')"
    by (simp add: col_normalize_status_simple completed_check_simple_def [abs_def])
qed

text \<open>
  C2, as stated, at the claim's own three completion dates: the file variant keeps the
  text \<open>NaT\<close> as a completion date, so the flags are true, false, true.
\<close>

theorem simple_is_completed_nat_text:
  "col (normalize_dataframe_simple
          [(''COURSE COMPLETED DATE'', [StrV ''2023-01-01'', StrV '''', StrV ''NaT''])])
       ''Is_Completed''
     = [BoolV True, BoolV False, BoolV True]"
  by code_simp

text \<open>The rule of C2 at concrete frames of both variants.\<close>

theorem is_completed_rule_witness:
  "col (normalize_dataframe_service
          [(''completed_date'', [StrV ''2023-01-01'', StrV '''', StrV ''NaT'', NaN, NoneV, IntV 0])])
       ''Is_Completed''
     = [BoolV True, BoolV False, BoolV False, BoolV False, BoolV False, BoolV False]
   \<and> col (normalize_dataframe_service [(''status'', [StrV ''yes'', StrV ''no''])]) ''Is_Completed''
     = [BoolV False, BoolV False]
   \<and> col (normalize_dataframe_simple
          [(''COURSE COMPLETED DATE'', [StrV ''2023-01-01'', StrV '''', NaN, StrV ''  ''])])
       ''Is_Completed''
     = [BoolV True, BoolV False, BoolV False, BoolV True]"
proof -
  let ?a = "[(''completed_date'',
              [StrV ''2023-01-01'', StrV '''', StrV ''NaT'', NaN, NoneV, IntV 0])]"
  let ?b = "[(''status'', [StrV ''yes'', StrV ''no''])]"
  let ?c = "[(''COURSE COMPLETED DATE'', [StrV ''2023-01-01'', StrV '''', NaN, StrV ''  ''])]"
  have a: "wf_table ?a \<and> \<not> df_empty ?a \<and> distinct (columns (rename column_mapping_service ?a))"
    by code_simp
  have b: "wf_table ?b \<and> \<not> df_empty ?b \<and> distinct (columns (rename column_mapping_service ?b))"
    by code_simp
  have c: "wf_table ?c \<and> \<not> df_empty ?c
      \<and> distinct (columns (rename_loop column_mapping_simple ?c))
      \<and> has_col ''Completed_Date'' (rename_loop column_mapping_simple ?c)"
    by code_simp
  have a': "(if has_col ''Completed_Date'' (rename column_mapping_service ?a)
               then map (\<lambda>x. BoolV (py_bool x \<and> \<not> isna x
                                      \<and> py_strip (py_str x) \<notin> {'''', ''nan'', ''None'', ''NaT''}))
                      (col (rename column_mapping_service ?a) ''Completed_Date'')
               else replicate (nrows ?a) (BoolV False))
            = [BoolV True, BoolV False, BoolV False, BoolV False, BoolV False, BoolV False]"
    by code_simp
  have b': "(if has_col ''Completed_Date'' (rename column_mapping_service ?b)
               then map (\<lambda>x. BoolV (py_bool x \<and> \<not> isna x
                                      \<and> py_strip (py_str x) \<notin> {'''', ''nan'', ''None'', ''NaT''}))
                      (col (rename column_mapping_service ?b) ''Completed_Date'')
               else replicate (nrows ?b) (BoolV False))
            = [BoolV False, BoolV False]"
    by code_simp
  have c': "map (\<lambda>x. BoolV (\<not> isna x \<and> x \<noteq> StrV ''''))
                (col (rename_loop column_mapping_simple ?c) ''Completed_Date'')
            = [BoolV True, BoolV False, BoolV False, BoolV True]"
    by code_simp
  from is_completed_rule [of ?a] a a' is_completed_rule [of ?b] b b'
    is_completed_rule [of ?c] c c'
  show ?thesis by presburger
qed

section \<open>Start date against status text\<close>





section \<open>Doubles\<close>
























text \<open>
  Two values of the model against the interpreter: the double written \<open>0.1\<close> is
  \<open>3602879701896397 / 2 ^ 55\<close>; and \<open>23 / 80 * 100\<close> is a double just below \<open>28.75\<close>, so both
  roundings of it give \<open>28.7\<close> where the exact quotient, a tie, would give \<open>28.8\<close>.
\<close>

lemma float64_tenth: "float64 (1 / 10) = 3602879701896397 / 36028797018963968"
  by code_simp

lemma percentage_23_of_80:
  "percentage 23 80 = float64 (287 / 10) \<and> percentage_np 23 80 = float64 (287 / 10)
   \<and> float_percent 23 80 < 2875 / 100"
  by code_simp

section \<open>Summary figures\<close>

lemma col_absent: "\<not> has_col n df \<Longrightarrow> col df n = []"
proof -
  assume "\<not> has_col n df"
  then have "map_of df n = None"
    by (simp add: has_col_def columns_def map_of_eq_None_iff)
  then show ?thesis by (simp add: col_def)
qed


lemma uniq_set [simp]: "set (uniq xs) = set xs"
  by (simp add: uniq_def)

lemma uniq_distinct [simp]: "distinct (uniq xs)"
  by (simp add: uniq_def)



lemma is_boolean_number: "is_boolean x \<Longrightarrow> \<not> is_text x \<and> \<not> isna x"
  by (cases x) simp_all






text \<open>
  Normalisation leaves a Boolean \<open>Is_Completed\<close>: always in the URL variant, and in the file
  variant when the frame has a completion-date column (without one the file variant adds
  no \<open>Is_Completed\<close> and keeps a column of that name that the file brought).
\<close>

lemma service_flags_boolean:
  "\<not> df_empty df
     \<Longrightarrow> list_all is_boolean (col (normalize_dataframe_service df) ''Is_Completed'')"
  by (simp add: normalize_service_nonempty col_add_completion_service_flag
      completed_check_service_nonnull list_all_iff)

lemma simple_flags_boolean:
  "\<not> df_empty df \<Longrightarrow> has_col ''Completed_Date'' (rename_loop column_mapping_simple df)
     \<Longrightarrow> list_all is_boolean (col (normalize_dataframe_simple df) ''Is_Completed'')"
  by (simp add: normalize_simple_nonempty col_add_completion_simple_flag
      has_col_normalize_status_simple completed_check_simple_def list_all_iff)




section \<open>Grouped breakdowns: rows, totals, order\<close>

lemma collect_map_Inr:
  "collect (map g ks) = Inr rows \<Longrightarrow> list_all2 (\<lambda>k r. g k = Inr r) ks rows"
proof (induction ks arbitrary: rows)
  case Nil
  then show ?case by simp
next
  case (Cons k ks)
  then show ?case by (auto split: sum.splits)
qed

lemma collect_map_ok:
  "(\<And>k. k \<in> set ks \<Longrightarrow> \<exists>r. g k = Inr r) \<Longrightarrow> \<exists>rows. collect (map g ks) = Inr rows"
proof (induction ks)
  case Nil
  show ?case by simp
next
  case (Cons k ks)
  then obtain r rows where "g k = Inr r" and "collect (map g ks) = Inr rows"
    by (metis list.set_intros(1,2))
  then show ?case by simp
qed

lemma length_filter_disjoint:
  "(\<And>x. x \<in> set xs \<Longrightarrow> \<not> (P x \<and> Q x))
     \<Longrightarrow> length (filter P xs) + length (filter Q xs) = length (filter (\<lambda>x. P x \<or> Q x) xs)"
  by (induction xs) auto

lemma sum_group_counts:
  "distinct ks \<Longrightarrow>
     (\<Sum>k\<leftarrow>ks. int (length (filter (\<lambda>p. fst p = k \<and> Q p) zs)))
       = int (length (filter (\<lambda>p. fst p \<in> set ks \<and> Q p) zs))"
proof (induction ks)
  case Nil
  show ?case by simp
next
  case (Cons k ks)
  have "length (filter (\<lambda>p. fst p = k \<and> Q p) zs)
          + length (filter (\<lambda>p. fst p \<in> set ks \<and> Q p) zs)
        = length (filter (\<lambda>p. (fst p = k \<and> Q p) \<or> (fst p \<in> set ks \<and> Q p)) zs)"
    using Cons.prems by (intro length_filter_disjoint) auto
  also have "\<dots> = length (filter (\<lambda>p. fst p \<in> set (k # ks) \<and> Q p) zs)"
    by (rule arg_cong [where f = length], rule filter_cong) auto
  finally show ?case using Cons by simp
qed

lemma count_notna_select:
  "count_notna (select k keys vs)
     = int (length (filter (\<lambda>p. fst p = k \<and> \<not> isna (snd p)) (zip keys vs)))"
proof -
  have "length (filter (\<lambda>x. \<not> isna x) (map snd (filter (\<lambda>p. fst p = k) zs)))
          = length (filter (\<lambda>p. fst p = k \<and> \<not> isna (snd p)) zs)" for zs :: "(cell \<times> cell) list"
    by (induction zs) auto
  then show ?thesis by (simp add: count_notna_def select_def)
qed

lemma sum_totals:
  "(\<Sum>k\<leftarrow>uniq (filter (\<lambda>x. \<not> isna x) keys). count_notna (select k keys names))
     = int (length (filter (\<lambda>p. \<not> isna (fst p) \<and> \<not> isna (snd p)) (zip keys names)))"
proof -
  let ?ks = "uniq (filter (\<lambda>x. \<not> isna x) keys)"
  have "(\<Sum>k\<leftarrow>?ks. count_notna (select k keys names))
          = int (length (filter (\<lambda>p. fst p \<in> set ?ks \<and> \<not> isna (snd p)) (zip keys names)))"
    unfolding count_notna_select by (rule sum_group_counts) simp
  also have "filter (\<lambda>p. fst p \<in> set ?ks \<and> \<not> isna (snd p)) (zip keys names)
               = filter (\<lambda>p. \<not> isna (fst p) \<and> \<not> isna (snd p)) (zip keys names)"
    by (rule filter_cong) (auto dest: set_zip_leftD)
  finally show ?thesis .
qed

text \<open>What \<open>groupby_agg\<close> returns: one row per group key, in the order of the keys.\<close>

lemma groupby_agg_rows:
  assumes "groupby_agg key agg wip df = Inr rows"
  shows "map group_key rows = uniq (filter (\<lambda>x. \<not> isna x) (col df key))"
    and "\<And>r. r \<in> set rows \<Longrightarrow>
           Total_Students r = count_notna (select (group_key r) (col df key) (col df ''Student_Name''))
           \<and> Started r = count_eq started_label
                            (select (group_key r) (col df key) (col df ''Status_Clean''))
           \<and> agg (select (group_key r) (col df key) (col df ''Is_Completed'')) = Inr (Completed r)
           \<and> Start_Rate r = None \<and> Completion_Rate r = None"
proof -
  let ?ks = "uniq (filter (\<lambda>x. \<not> isna x) (col df key))"
  let ?g = "\<lambda>k. case agg (select k (col df key) (col df ''Is_Completed'')) of
                   Inl e \<Rightarrow> Inl e
                 | Inr c \<Rightarrow>
                     Inr \<lparr>group_key = k,
                          Total_Students = count_notna (select k (col df key) (col df ''Student_Name'')),
                          Started = count_eq started_label
                                      (select k (col df key) (col df ''Status_Clean'')),
                          Completed = c,
                          In_Progress =
                            (if wip
                             then Some (count_eq (StrV ''In Progress'')
                                          (select k (col df key) (col df ''Completion_Status'')))
                             else None),
                          Start_Rate = None,
                          Completion_Rate = None\<rparr>"
  from assms have "collect (map ?g ?ks) = Inr rows"
    by (simp add: groupby_agg_def Let_def split: if_splits)
  then have l: "list_all2 (\<lambda>k r. ?g k = Inr r) ?ks rows" by (rule collect_map_Inr)
  have g: "?g k = Inr r \<Longrightarrow> group_key r = k
           \<and> Total_Students r = count_notna (select k (col df key) (col df ''Student_Name''))
           \<and> Started r = count_eq started_label (select k (col df key) (col df ''Status_Clean''))
           \<and> agg (select k (col df key) (col df ''Is_Completed'')) = Inr (Completed r)
           \<and> Start_Rate r = None \<and> Completion_Rate r = None" for k r
    by (auto split: sum.splits)
  from l have "list_all2 (\<lambda>k r. group_key r = k) ?ks rows"
    by (rule list_all2_mono) (use g in blast)
  then show "map group_key rows = ?ks"
    by (simp add: list_all2_conv_all_nth list_eq_iff_nth_eq)
  fix r assume "r \<in> set rows"
  with l obtain k where "?g k = Inr r"
    by (auto simp: in_set_conv_nth list_all2_conv_all_nth)
  with g [of k r] show "Total_Students r
             = count_notna (select (group_key r) (col df key) (col df ''Student_Name''))
           \<and> Started r = count_eq started_label
                            (select (group_key r) (col df key) (col df ''Status_Clean''))
           \<and> agg (select (group_key r) (col df key) (col df ''Is_Completed'')) = Inr (Completed r)
           \<and> Start_Rate r = None \<and> Completion_Rate r = None"
    by blast
qed

lemma groupby_agg_KeyError:
  "\<not> has_col ''Student_Name'' df \<or> \<not> has_col ''Status_Clean'' df
     \<or> \<not> has_col ''Is_Completed'' df \<or> (wip \<and> \<not> has_col ''Completion_Status'' df)
   \<Longrightarrow> groupby_agg key agg wip df = Inl KeyError"
  by (auto simp: groupby_agg_def)

lemma groupby_agg_ok:
  assumes "has_col ''Student_Name'' df" and "has_col ''Status_Clean'' df"
    and "has_col ''Is_Completed'' df" and "wip \<longrightarrow> has_col ''Completion_Status'' df"
    and "\<And>k. \<exists>c. agg (select k (col df key) (col df ''Is_Completed'')) = Inr c"
  shows "\<exists>rows. groupby_agg key agg wip df = Inr rows"
proof -
  have "\<exists>rows. collect (map (\<lambda>k.
            case agg (select k (col df key) (col df ''Is_Completed'')) of
              Inl e \<Rightarrow> Inl e
            | Inr c \<Rightarrow>
                Inr \<lparr>group_key = k,
                     Total_Students = count_notna (select k (col df key) (col df ''Student_Name'')),
                     Started = count_eq started_label
                                 (select k (col df key) (col df ''Status_Clean'')),
                     Completed = c,
                     In_Progress =
                       (if wip
                        then Some (count_eq (StrV ''In Progress'')
                                     (select k (col df key) (col df ''Completion_Status'')))
                        else None),
                     Start_Rate = None,
                     Completion_Rate = None\<rparr>)
          (uniq (filter (\<lambda>x. \<not> isna x) (col df key)))) = Inr rows"
  proof (rule collect_map_ok)
    fix k
    from assms(5) obtain c where "agg (select k (col df key) (col df ''Is_Completed'')) = Inr c"
      by blast
    then show "\<exists>r. (case agg (select k (col df key) (col df ''Is_Completed'')) of
              Inl e \<Rightarrow> Inl e
            | Inr c \<Rightarrow>
                Inr \<lparr>group_key = k,
                     Total_Students = count_notna (select k (col df key) (col df ''Student_Name'')),
                     Started = count_eq started_label
                                 (select k (col df key) (col df ''Status_Clean'')),
                     Completed = c,
                     In_Progress =
                       (if wip
                        then Some (count_eq (StrV ''In Progress'')
                                     (select k (col df key) (col df ''Completion_Status'')))
                        else None),
                     Start_Rate = None,
                     Completion_Rate = None\<rparr>) = Inr r"
      by simp
  qed
  with assms(1-4) show ?thesis by (simp add: groupby_agg_def Let_def)
qed

lemma select_subset: "set (select k keys vs) \<subseteq> set vs"
  by (auto simp: select_def dest: set_zip_rightD)

lemma sum_cells_boolean:
  "list_all is_boolean xs \<Longrightarrow> sum_cells xs = Inr (\<Sum>x\<leftarrow>xs. cell_num x)"
proof -
  assume "list_all is_boolean xs"
  then have "\<not> list_ex is_text xs"
    by (auto simp: list_all_iff list_ex_iff dest: is_boolean_number)
  then show ?thesis by (simp add: sum_cells_def)
qed

lemma sum_astype_int_boolean:
  "list_all is_boolean xs \<Longrightarrow> sum_astype_int xs = Inr (\<Sum>x\<leftarrow>xs. cell_num x)"
proof -
  assume "list_all is_boolean xs"
  then have "\<not> list_ex (\<lambda>x. is_text x \<or> isna x) xs"
    by (auto simp: list_all_iff list_ex_iff dest: is_boolean_number)
  then show ?thesis by (simp add: sum_astype_int_def)
qed


lemma sum_list_insort_key:
  "(\<Sum>r\<leftarrow>insort_key g x xs. f r) = f x + (\<Sum>r\<leftarrow>xs. (f r :: int))"
  by (induction xs) auto

lemma sum_list_sort_key: "(\<Sum>r\<leftarrow>sort_key g xs. f r) = (\<Sum>r\<leftarrow>xs. (f r :: int))"
  by (induction xs) (auto simp: sum_list_insort_key)

lemma sorted_desc_sort_values:
  "sorted_wrt (\<lambda>a b. b \<le> a) (map Total_Students (sort_values_desc rows))"
proof -
  have "sorted (map (\<lambda>r. - Total_Students r) (sort_values_desc rows))"
    unfolding sort_values_desc_def by (rule sorted_sort_key)
  then show ?thesis by (simp add: sorted_wrt_map)
qed

text \<open>
  The four breakdown functions have one shape; \<open>h\<close> adds the rate columns and leaves the
  aggregated ones alone.
\<close>

lemma breakdown_shape:
  assumes f: "result = (if df_empty df \<or> \<not> has_col key df then Inr []
                        else case groupby_agg key agg wip df of
                               Inl e \<Rightarrow> Inl e
                             | Inr stats \<Rightarrow> Inr (sort_values_desc (map h stats)))"
    and hk: "\<And>r. group_key (h r) = group_key r"
    and ht: "\<And>r. Total_Students (h r) = Total_Students r"
    and res: "result = Inr rows"
    and wf: "wf_table df"
  shows "mset (map group_key rows) = mset (uniq (filter (\<lambda>x. \<not> isna x) (col df key)))"
    and "(\<Sum>r\<leftarrow>rows. Total_Students r)
           = int (length (filter (\<lambda>p. \<not> isna (fst p) \<and> \<not> isna (snd p))
                            (zip (col df key) (col df ''Student_Name''))))"
    and "sorted_wrt (\<lambda>a b. b \<le> a) (map Total_Students rows)"
    and "\<And>r. r \<in> set rows \<Longrightarrow>
           \<exists>r0. r = h r0
              \<and> Total_Students r0
                  = count_notna (select (group_key r0) (col df key) (col df ''Student_Name''))
              \<and> Started r0 = count_eq started_label
                                (select (group_key r0) (col df key) (col df ''Status_Clean''))
              \<and> agg (select (group_key r0) (col df key) (col df ''Is_Completed''))
                  = Inr (Completed r0)
              \<and> Start_Rate r0 = None \<and> Completion_Rate r0 = None"
    and "\<not> df_empty df \<Longrightarrow> has_col key df \<Longrightarrow> has_col ''Student_Name'' df"
proof -
  have none: "col df key = []" if "df_empty df \<or> \<not> has_col key df"
  proof (cases "has_col key df")
    case False
    then show ?thesis by (rule col_absent)
  next
    case True
    with that have "df_empty df" by blast
    moreover from True have "df \<noteq> []" by (auto simp: has_col_def columns_def)
    ultimately have "nrows df = 0" by (simp add: df_empty_def)
    with length_col [OF wf True] show ?thesis by simp
  qed
  consider (empty) "df_empty df \<or> \<not> has_col key df" "rows = []"
    | (rows) stats where "\<not> df_empty df" "has_col key df"
        "groupby_agg key agg wip df = Inr stats" "rows = sort_values_desc (map h stats)"
    using f res by (auto split: if_splits sum.splits)
  note cases = this
  show "mset (map group_key rows) = mset (uniq (filter (\<lambda>x. \<not> isna x) (col df key)))"
  proof (cases rule: cases)
    case empty
    then show ?thesis by (simp add: none uniq_def)
  next
    case (rows stats)
    have "mset rows = mset (map h stats)"
      by (simp add: rows(4) sort_values_desc_def)
    then have "image_mset group_key (mset rows) = image_mset group_key (mset (map h stats))"
      by (rule arg_cong)
    then have "mset (map group_key rows) = mset (map group_key (map h stats))"
      by (simp only: mset_map)
    also have "map group_key (map h stats) = map group_key stats" by (simp add: hk)
    finally show ?thesis by (simp add: groupby_agg_rows(1) [OF rows(3)])
  qed
  show "(\<Sum>r\<leftarrow>rows. Total_Students r)
           = int (length (filter (\<lambda>p. \<not> isna (fst p) \<and> \<not> isna (snd p))
                            (zip (col df key) (col df ''Student_Name''))))"
  proof (cases rule: cases)
    case empty
    then show ?thesis by (simp add: none)
  next
    case (rows stats)
    have "(\<Sum>r\<leftarrow>rows. Total_Students r) = (\<Sum>r\<leftarrow>stats. Total_Students r)"
      by (simp add: rows(4) sort_values_desc_def sum_list_sort_key ht comp_def)
    also have "\<dots> = (\<Sum>r\<leftarrow>stats. count_notna (select (group_key r) (col df key)
                                                 (col df ''Student_Name'')))"
      by (rule arg_cong [where f = sum_list], rule map_cong)
        (simp_all add: groupby_agg_rows(2) [OF rows(3)])
    also have "\<dots> = (\<Sum>k\<leftarrow>map group_key stats.
                        count_notna (select k (col df key) (col df ''Student_Name'')))"
      by (simp add: comp_def)
    finally show ?thesis
      by (simp only: groupby_agg_rows(1) [OF rows(3)] sum_totals)
  qed
  show "sorted_wrt (\<lambda>a b. b \<le> a) (map Total_Students rows)"
  proof (cases rule: cases)
    case empty
    then show ?thesis by simp
  next
    case (rows stats)
    then show ?thesis by (simp only: sorted_desc_sort_values)
  qed
  show "\<exists>r0. r = h r0
              \<and> Total_Students r0
                  = count_notna (select (group_key r0) (col df key) (col df ''Student_Name''))
              \<and> Started r0 = count_eq started_label
                                (select (group_key r0) (col df key) (col df ''Status_Clean''))
              \<and> agg (select (group_key r0) (col df key) (col df ''Is_Completed''))
                  = Inr (Completed r0)
              \<and> Start_Rate r0 = None \<and> Completion_Rate r0 = None"
    if "r \<in> set rows" for r
  proof (cases rule: cases)
    case empty
    with that show ?thesis by simp
  next
    case (rows stats)
    with that obtain r0 where "r0 \<in> set stats" and "r = h r0"
      by (auto simp: sort_values_desc_def)
    with groupby_agg_rows(2) [OF rows(3), of r0] show ?thesis by blast
  qed
  show "has_col ''Student_Name'' df" if "\<not> df_empty df" and "has_col key df"
  proof (rule ccontr)
    assume "\<not> has_col ''Student_Name'' df"
    then have "groupby_agg key agg wip df = Inl KeyError"
      by (simp add: groupby_agg_KeyError)
    with f res that show False by simp
  qed
qed

lemma add_rate_fields [simp]:
  "group_key (add_start_rate r) = group_key r"
  "Total_Students (add_start_rate r) = Total_Students r"
  "Started (add_start_rate r) = Started r"
  "Completed (add_start_rate r) = Completed r"
  "Completion_Rate (add_start_rate r) = Completion_Rate r"
  "group_key (add_completion_rate r) = group_key r"
  "Total_Students (add_completion_rate r) = Total_Students r"
  "Started (add_completion_rate r) = Started r"
  "Completed (add_completion_rate r) = Completed r"
  "Start_Rate (add_completion_rate r) = Start_Rate r"
  by (simp_all add: add_start_rate_def add_completion_rate_def)

lemma breakdown_rows_generic:
  assumes f: "result = (if df_empty df \<or> \<not> has_col key df then Inr []
                        else case groupby_agg key agg wip df of
                               Inl e \<Rightarrow> Inl e
                             | Inr stats \<Rightarrow> Inr (sort_values_desc (map h stats)))"
    and hk: "\<And>r. group_key (h r) = group_key r"
    and ht: "\<And>r. Total_Students (h r) = Total_Students r"
    and res: "result = Inr rows"
    and wf: "wf_table df"
  shows "distinct (map group_key rows)
     \<and> set (map group_key rows) = {k \<in> set (col df key). \<not> isna k}
     \<and> (\<Sum>r\<leftarrow>rows. Total_Students r)
         = int (length (filter (\<lambda>p. \<not> isna (fst p) \<and> \<not> isna (snd p))
                          (zip (col df key) (col df ''Student_Name''))))
     \<and> (has_col key df \<and> list_all (\<lambda>x. \<not> isna x) (col df key)
          \<and> list_all (\<lambda>x. \<not> isna x) (col df ''Student_Name'')
        \<longrightarrow> (\<Sum>r\<leftarrow>rows. Total_Students r) = int (nrows df))
     \<and> sorted_wrt (\<lambda>a b. b \<le> a) (map Total_Students rows)"
proof -
  note s = breakdown_shape [OF f hk ht res wf]
  let ?ks = "uniq (filter (\<lambda>x. \<not> isna x) (col df key))"
  have d: "distinct (map group_key rows)"
    using mset_eq_imp_distinct_iff [OF s(1)] by simp
  have e: "set (map group_key rows) = {k \<in> set (col df key). \<not> isna k}"
    using mset_eq_setD [OF s(1)] by simp
  have n: "(\<Sum>r\<leftarrow>rows. Total_Students r) = int (nrows df)"
    if k: "has_col key df" and a: "list_all (\<lambda>x. \<not> isna x) (col df key)"
      and b: "list_all (\<lambda>x. \<not> isna x) (col df ''Student_Name'')"
  proof (cases "df_empty df")
    case True
    with f res have "rows = []" by simp
    moreover from k have "df \<noteq> []" by (auto simp: has_col_def columns_def)
    with True have "nrows df = 0" by (simp add: df_empty_def)
    ultimately show ?thesis by simp
  next
    case False
    then have "has_col ''Student_Name'' df" using k by (rule s(5))
    then have l: "length (col df ''Student_Name'') = nrows df"
      and l': "length (col df key) = nrows df"
      using k wf by (simp_all add: length_col)
    have "filter (\<lambda>p. \<not> isna (fst p) \<and> \<not> isna (snd p))
            (zip (col df key) (col df ''Student_Name''))
          = zip (col df key) (col df ''Student_Name'')"
    proof (rule filter_True, rule ballI)
      fix p assume "p \<in> set (zip (col df key) (col df ''Student_Name''))"
      then have m: "(fst p, snd p) \<in> set (zip (col df key) (col df ''Student_Name''))"
        by simp
      have "fst p \<in> set (col df key)" using m by (rule set_zip_leftD)
      moreover have "snd p \<in> set (col df ''Student_Name'')" using m by (rule set_zip_rightD)
      ultimately show "\<not> isna (fst p) \<and> \<not> isna (snd p)"
        using a b by (simp add: list_all_iff)
    qed
    with s(2) l l' show ?thesis by simp
  qed
  from d e s(2) s(3) n show ?thesis by (intro conjI impI) simp_all
qed

text \<open>
  C6, amended: a breakdown has one row per distinct non-missing value of the grouping
  column; \<open>Total_Students\<close> of a group counts its records with a non-missing \<open>Student_Name\<close>,
  so the totals sum to the number of records whose grouping value and \<open>Student_Name\<close> are
  both present, which is the record count when neither column has a missing value; the
  rows are in descending order of \<open>Total_Students\<close>.
\<close>

theorem breakdown_rows:
  assumes wf: "wf_table df"
    and mem: "(f, key) \<in> {(create_tutor_performance, ''Tutor''),
                            (create_team_performance, ''Team''),
                            (create_course_analysis_service, ''Course''),
                            (create_course_analysis_simple, ''Course'')}"
    and res: "f df = Inr rows"
  shows "distinct (map group_key rows)
     \<and> set (map group_key rows) = {k \<in> set (col df key). \<not> isna k}
     \<and> (\<Sum>r\<leftarrow>rows. Total_Students r)
         = int (length (filter (\<lambda>p. \<not> isna (fst p) \<and> \<not> isna (snd p))
                          (zip (col df key) (col df ''Student_Name''))))
     \<and> (has_col key df \<and> list_all (\<lambda>x. \<not> isna x) (col df key)
          \<and> list_all (\<lambda>x. \<not> isna x) (col df ''Student_Name'')
        \<longrightarrow> (\<Sum>r\<leftarrow>rows. Total_Students r) = int (nrows df))
     \<and> sorted_wrt (\<lambda>a b. b \<le> a) (map Total_Students rows)"
proof -
  from mem consider
    (tutor) "f = create_tutor_performance" "key = ''Tutor''"
    | (team) "f = create_team_performance" "key = ''Team''"
    | (course_service) "f = create_course_analysis_service" "key = ''Course''"
    | (course_simple) "f = create_course_analysis_simple" "key = ''Course''"
    by auto
  then show ?thesis
  proof cases
    case tutor
    show ?thesis
      by (rule breakdown_rows_generic [where result = "f df" and agg = sum_cells and wip = True
            and h = "add_completion_rate \<circ> add_start_rate", OF _ _ _ res wf])
        (simp_all add: tutor create_tutor_performance_def)
  next
    case team
    show ?thesis
      by (rule breakdown_rows_generic [where result = "f df" and agg = sum_cells and wip = False
            and h = add_completion_rate, OF _ _ _ res wf])
        (simp_all add: team create_team_performance_def)
  next
    case course_service
    show ?thesis
      by (rule breakdown_rows_generic [where result = "f df" and agg = sum_astype_int
            and wip = False and h = add_completion_rate, OF _ _ _ res wf])
        (simp_all add: course_service create_course_analysis_service_def)
  next
    case course_simple
    show ?thesis
      by (rule breakdown_rows_generic [where result = "f df" and agg = sum_cells and wip = False
            and h = add_completion_rate, OF _ _ _ res wf])
        (simp_all add: course_simple create_course_analysis_simple_def)
  qed
qed

text \<open>
  C6, as stated, at a frame of three records of which one has no tutor and one no student
  name: the only group counts one student, not three.
\<close>

theorem tutor_totals_skip_missing:
  "create_tutor_performance (normalize_dataframe_service
      [(''student_name'', [StrV ''x'', StrV ''y'', NaN]),
       (''tutor_name'', [StrV ''A'', NaN, StrV ''A'']),
       (''status'', [StrV ''Started'', StrV ''Started'', StrV ''no''])])
     = Inr [\<lparr>group_key = StrV ''A'', Total_Students = 1, Started = 1, Completed = 0,
              In_Progress = Some 2, Start_Rate = Some 100, Completion_Rate = Some 0\<rparr>]
   \<and> nrows (normalize_dataframe_service
      [(''student_name'', [StrV ''x'', StrV ''y'', NaN]),
       (''tutor_name'', [StrV ''A'', NaN, StrV ''A'']),
       (''status'', [StrV ''Started'', StrV ''Started'', StrV ''no''])]) = 3"
  by code_simp

text \<open>The breakdown by team of a normalised frame of three records in two teams.\<close>

theorem breakdown_rows_witness:
  "\<exists>rows. create_team_performance (normalize_dataframe_service
        [(''student_name'', [StrV ''x'', StrV ''y'', StrV ''z'']),
         (''team_name'', [StrV ''T1'', StrV ''T2'', StrV ''T2'']),
         (''status'', [StrV ''Started'', StrV ''Started'', StrV ''no''])]) = Inr rows
     \<and> map group_key rows = [StrV ''T2'', StrV ''T1'']
     \<and> distinct (map group_key rows)
     \<and> (\<Sum>r\<leftarrow>rows. Total_Students r) = 3
     \<and> sorted_wrt (\<lambda>a b. b \<le> a) (map Total_Students rows)"
proof -
  let ?T = "[(''Student_Name'', [StrV ''x'', StrV ''y'', StrV ''z'']),
             (''Team'', [StrV ''T1'', StrV ''T2'', StrV ''T2'']),
             (''Status'', [StrV ''Started'', StrV ''Started'', StrV ''no'']),
             (''Status_Clean'', [StrV ''Started'', StrV ''Started'', StrV ''Not Started'']),
             (''Is_Completed'', [BoolV False, BoolV False, BoolV False]),
             (''Completion_Status'', [StrV ''In Progress'', StrV ''In Progress'', StrV ''In Progress''])]"
  let ?R = "[\<lparr>group_key = StrV ''T2'', Total_Students = 2, Started = 1, Completed = 0,
               In_Progress = None, Start_Rate = None, Completion_Rate = Some 0\<rparr>,
             \<lparr>group_key = StrV ''T1'', Total_Students = 1, Started = 1, Completed = 0,
               In_Progress = None, Start_Rate = None, Completion_Rate = Some 0\<rparr>]"
  have e: "normalize_dataframe_service
        [(''student_name'', [StrV ''x'', StrV ''y'', StrV ''z'']),
         (''team_name'', [StrV ''T1'', StrV ''T2'', StrV ''T2'']),
         (''status'', [StrV ''Started'', StrV ''Started'', StrV ''no''])] = ?T"
    by code_simp
  have wf: "wf_table ?T" by code_simp
  have res: "create_team_performance ?T = Inr ?R" by code_simp
  have mem: "(create_team_performance, ''Team'') \<in> {(create_tutor_performance, ''Tutor''),
                            (create_team_performance, ''Team''),
                            (create_course_analysis_service, ''Course''),
                            (create_course_analysis_simple, ''Course'')}"
    by simp
  have c: "has_col ''Team'' ?T \<and> list_all (\<lambda>x. \<not> isna x) (col ?T ''Team'')
          \<and> list_all (\<lambda>x. \<not> isna x) (col ?T ''Student_Name'')" "int (nrows ?T) = 3"
    by code_simp+
  note b = breakdown_rows [OF wf mem res]
  have "(\<Sum>r\<leftarrow>?R. Total_Students r) = int (nrows ?T)"
    using b [THEN conjunct2, THEN conjunct2, THEN conjunct2, THEN conjunct1] c(1) by (rule mp)
  then have s3: "(\<Sum>r\<leftarrow>?R. Total_Students r) = 3" by (simp only: c(2))
  show ?thesis unfolding e
  proof (rule exI [where x = ?R], intro conjI)
    show "create_team_performance ?T = Inr ?R" by (rule res)
    show "map group_key ?R = [StrV ''T2'', StrV ''T1'']" by simp
    show "distinct (map group_key ?R)" by (rule b [THEN conjunct1])
    show "(\<Sum>r\<leftarrow>?R. Total_Students r) = 3" by (rule s3)
    show "sorted_wrt (\<lambda>a b. b \<le> a) (map Total_Students ?R)"
      by (rule b [THEN conjunct2, THEN conjunct2, THEN conjunct2, THEN conjunct2])
  qed
qed

text \<open>
  C7, amended: each breakdown function returns the empty breakdown when the frame is empty
  or has no grouping column, and returns a breakdown, raising nothing, on every frame
  that has \<open>Student_Name\<close>, \<open>Status_Clean\<close> and a Boolean \<open>Is_Completed\<close> (and
  \<open>Completion_Status\<close> for the tutor breakdown).
\<close>

theorem breakdown_empty_or_rows:
  assumes mem: "(f, key, tutor) \<in> {(create_tutor_performance, ''Tutor'', True),
                                    (create_team_performance, ''Team'', False),
                                    (create_course_analysis_service, ''Course'', False),
                                    (create_course_analysis_simple, ''Course'', False)}"
  shows "(df_empty df \<or> \<not> has_col key df \<longrightarrow> f df = Inr [])
     \<and> (has_col ''Student_Name'' df \<and> has_col ''Status_Clean'' df \<and> has_col ''Is_Completed'' df
          \<and> (tutor \<longrightarrow> has_col ''Completion_Status'' df)
          \<and> list_all is_boolean (col df ''Is_Completed'')
        \<longrightarrow> (\<exists>rows. f df = Inr rows))"
proof -
  have ok: "\<exists>stats. groupby_agg key agg tutor df = Inr stats"
    if "has_col ''Student_Name'' df \<and> has_col ''Status_Clean'' df \<and> has_col ''Is_Completed'' df
          \<and> (tutor \<longrightarrow> has_col ''Completion_Status'' df)
          \<and> list_all is_boolean (col df ''Is_Completed'')"
      and agg: "\<And>xs. list_all is_boolean xs \<Longrightarrow> agg xs = Inr (\<Sum>x\<leftarrow>xs. cell_num x)"
    for agg
  proof (rule groupby_agg_ok)
    fix k
    have "list_all is_boolean (select k (col df key) (col df ''Is_Completed''))"
      using that(1) select_subset [of k "col df key" "col df ''Is_Completed''"]
      by (auto simp: list_all_iff)
    then show "\<exists>c. agg (select k (col df key) (col df ''Is_Completed'')) = Inr c"
      using agg by blast
  qed (use that(1) in simp_all)
  from mem consider
    (tutor) "f = create_tutor_performance" "key = ''Tutor''" "tutor"
    | (team) "f = create_team_performance" "key = ''Team''" "\<not> tutor"
    | (course_service) "f = create_course_analysis_service" "key = ''Course''" "\<not> tutor"
    | (course_simple) "f = create_course_analysis_simple" "key = ''Course''" "\<not> tutor"
    by auto
  then show ?thesis
  proof cases
    case tutor
    with ok [of sum_cells, OF _ sum_cells_boolean]
    show ?thesis by (auto simp: create_tutor_performance_def)
  next
    case team
    with ok [of sum_cells, OF _ sum_cells_boolean]
    show ?thesis by (auto simp: create_team_performance_def)
  next
    case course_service
    with ok [of sum_astype_int, OF _ sum_astype_int_boolean]
    show ?thesis by (auto simp: create_course_analysis_service_def)
  next
    case course_simple
    with ok [of sum_cells, OF _ sum_cells_boolean]
    show ?thesis by (auto simp: create_course_analysis_simple_def)
  qed
qed

text \<open>
  C7, as stated, at a frame with a tutor column and no student-name column: the
  aggregation names \<open>Student_Name\<close>, and the tutor breakdown raises \<open>KeyError\<close>.
\<close>

theorem tutor_breakdown_key_error:
  "create_tutor_performance (normalize_dataframe_service
      [(''tutor_name'', [StrV ''A'']), (''status'', [StrV ''yes''])]) = Inl KeyError"
  by code_simp

text \<open>The two cases of C7 at concrete frames.\<close>

theorem breakdown_empty_or_rows_witness:
  "create_course_analysis_service [] = Inr []
   \<and> (\<exists>rows. create_tutor_performance
          [(''Student_Name'', [StrV ''x'', NaN]),
           (''Tutor'', [StrV ''A'', StrV ''B'']),
           (''Status_Clean'', [StrV ''Started'', StrV ''Not Started'']),
           (''Is_Completed'', [BoolV False, BoolV True]),
           (''Completion_Status'', [StrV ''In Progress'', StrV ''Completed''])] = Inr rows)"
proof -
  let ?T = "[(''Student_Name'', [StrV ''x'', NaN]),
           (''Tutor'', [StrV ''A'', StrV ''B'']),
           (''Status_Clean'', [StrV ''Started'', StrV ''Not Started'']),
           (''Is_Completed'', [BoolV False, BoolV True]),
           (''Completion_Status'', [StrV ''In Progress'', StrV ''Completed''])]"
  have m1: "(create_course_analysis_service, ''Course'', False)
        \<in> {(create_tutor_performance, ''Tutor'', True),
           (create_team_performance, ''Team'', False),
           (create_course_analysis_service, ''Course'', False),
           (create_course_analysis_simple, ''Course'', False)}" by simp
  have m2: "(create_tutor_performance, ''Tutor'', True)
        \<in> {(create_tutor_performance, ''Tutor'', True),
           (create_team_performance, ''Team'', False),
           (create_course_analysis_service, ''Course'', False),
           (create_course_analysis_simple, ''Course'', False)}" by simp
  have h1: "df_empty [] \<or> \<not> has_col ''Course'' []" by code_simp
  have h2: "has_col ''Student_Name'' ?T \<and> has_col ''Status_Clean'' ?T \<and> has_col ''Is_Completed'' ?T
          \<and> (True \<longrightarrow> has_col ''Completion_Status'' ?T)
          \<and> list_all is_boolean (col ?T ''Is_Completed'')" by code_simp
  have "create_course_analysis_service [] = Inr []"
    using breakdown_empty_or_rows [OF m1, of "[]", THEN conjunct1] h1 by (rule mp)
  moreover have "\<exists>rows. create_tutor_performance ?T = Inr rows"
    using breakdown_empty_or_rows [OF m2, of ?T, THEN conjunct2] h2 by (rule mp)
  ultimately show ?thesis by (intro conjI)
qed

section \<open>Rates\<close>












end
